theory Spec2Isabelle
  imports Complex_Main
begin

section \<open>The host engine seen from the scripts\<close>

text \<open>
  The four scripts (\<^verbatim>\<open>internal_complete_setup.py\<close>, \<^verbatim>\<open>internal_input_setup.py\<close>,
  \<^verbatim>\<open>internal_spaceship_creator.py\<close>, \<^verbatim>\<open>internal_weapon_system.py\<close>) only sequence
  calls into the editor's Python API.  The editor is not part of the repository, so it is
  a parameter of every definition below: a host is a state of some type \<open>'h\<close> together
  with a function that answers each call, either by raising or by returning a value, and
  moves to a new state.  Nothing is assumed about the answers.

  Values are untyped, as in Python: truthiness, \<^verbatim>\<open>is None\<close>, \<^verbatim>\<open>==\<close>, iteration and
  attribute access are defined on every value, and raise where Python raises.
  Class references (\<^verbatim>\<open>unreal.Pawn\<close>, \<^verbatim>\<open>X.static_class()\<close>), enum constants
  (\<^verbatim>\<open>unreal.Key.E\<close>) and struct constructors (\<^verbatim>\<open>unreal.Vector(..)\<close>,
  \<^verbatim>\<open>unreal.InputActionKeyMapping(..)\<close>) are data; every other use of the API is a call
  the host may answer with an exception.  A float literal is the real number its text denotes.
\<close>

datatype val =
    VNone
  | VBool bool
  | VInt int
  | VFloat real
  | VStr string
  | VList "val list"
  | VObj nat
  | VClass string
  | VEnum string
  | VVector real real real
  | VRotator real real real
  | VTransform val val val
  | VActionMapping val val
  | VAxisMapping val val val
  | VPinType val val

datatype exn = HostError string | AttributeError | TypeError | SyntaxError

datatype reply = Raises string | Returns val

text \<open>The pieces of an f-string: literal text, an interpolated value, an interpolated exception.\<close>

datatype frag = T string | V val | X exn

text \<open>
  What a run leaves behind: the calls answered by the host (with the answer), the lines
  passed to \<^verbatim>\<open>unreal.log\<close>, and, for each function of the scripts, the fact that it was
  entered (with its arguments) and left (with the value it returned or the exception
  that went through it).  \<^verbatim>\<open>unreal.log\<close> itself is taken not to raise.
\<close>

datatype event =
    Enter string "val list"
  | Leave string "exn + val"
  | Host string "val list" reply
  | Log "frag list"

text \<open>
  The state a script runs in is the host's state and Python's \<^verbatim>\<open>sys.path\<close>.  A piece of
  script takes a state and gives its outcome (an exception or a value), the new state and
  the events of the run, in order.
\<close>

record 'h world =
  host :: 'h
  sys_path :: "string list"

type_synonym 'h api = "'h \<Rightarrow> string \<Rightarrow> val list \<Rightarrow> reply \<times> 'h"

type_synonym ('h, 'a) prog = "'h world \<Rightarrow> (exn + 'a) \<times> 'h world \<times> event list"

subsection \<open>Sequencing, exceptions, calls\<close>

definition ret :: "'a \<Rightarrow> ('h, 'a) prog" where
  "ret x = (\<lambda>s. (Inr x, s, []))"

definition raise :: "exn \<Rightarrow> ('h, 'a) prog" where
  "raise e = (\<lambda>s. (Inl e, s, []))"

definition bnd :: "('h, 'a) prog \<Rightarrow> ('a \<Rightarrow> ('h, 'b) prog) \<Rightarrow> ('h, 'b) prog" where
  "bnd m f = (\<lambda>s.
     case m s of
       (Inl e, s1, t1) \<Rightarrow> (Inl e, s1, t1)
     | (Inr x, s1, t1) \<Rightarrow> (case f x s1 of (r, s2, t2) \<Rightarrow> (r, s2, t1 @ t2)))"

text \<open>\<^verbatim>\<open>try: m  except Exception as e: h e\<close>\<close>

definition try_except :: "('h, 'a) prog \<Rightarrow> (exn \<Rightarrow> ('h, 'a) prog) \<Rightarrow> ('h, 'a) prog" where
  "try_except m h = (\<lambda>s.
     case m s of
       (Inl e, s1, t1) \<Rightarrow> (case h e s1 of (r, s2, t2) \<Rightarrow> (r, s2, t1 @ t2))
     | (Inr x, s1, t1) \<Rightarrow> (Inr x, s1, t1))"

definition emit :: "event \<Rightarrow> ('h, unit) prog" where
  "emit ev = (\<lambda>s. (Inr (), s, [ev]))"

text \<open>\<^verbatim>\<open>def name(args): body\<close>, called: the entry and the exit are recorded around the body.\<close>

definition fn :: "string \<Rightarrow> val list \<Rightarrow> ('h, val) prog \<Rightarrow> ('h, val) prog" where
  "fn name args body = (\<lambda>s.
     case body s of (r, s1, t) \<Rightarrow> (r, s1, Enter name args # t @ [Leave name r]))"

definition outcome :: "reply \<Rightarrow> exn + val" where
  "outcome r = (case r of Raises msg \<Rightarrow> Inl (HostError msg) | Returns v \<Rightarrow> Inr v)"

definition call :: "'h api \<Rightarrow> string \<Rightarrow> val list \<Rightarrow> ('h, val) prog" where
  "call H name args = (\<lambda>s.
     case H (host s) name args of
       (r, h') \<Rightarrow> (outcome r, s\<lparr>host := h'\<rparr>, [Host name args r]))"

primrec for_each :: "('a \<Rightarrow> ('h, unit) prog) \<Rightarrow> 'a list \<Rightarrow> ('h, unit) prog" where
  "for_each body [] = ret ()"
| "for_each body (x # xs) = bnd (body x) (\<lambda>_. for_each body xs)"

subsection \<open>Python's view of a value\<close>

fun truthy :: "val \<Rightarrow> bool" where
  "truthy VNone = False"
| "truthy (VBool b) = b"
| "truthy (VInt i) = (i \<noteq> 0)"
| "truthy (VFloat r) = (r \<noteq> 0)"
| "truthy (VStr s) = (s \<noteq> [])"
| "truthy (VList xs) = (xs \<noteq> [])"
| "truthy _ = True"

fun is_builtin :: "val \<Rightarrow> bool" where
  "is_builtin VNone = True"
| "is_builtin (VBool b) = True"
| "is_builtin (VInt i) = True"
| "is_builtin (VFloat r) = True"
| "is_builtin (VStr s) = True"
| "is_builtin (VList xs) = True"
| "is_builtin _ = False"

text \<open>\<^verbatim>\<open>for x in v\<close>: a list gives its elements, a string its characters, anything else
  is not iterable.\<close>

fun py_iter :: "val \<Rightarrow> ('h, val list) prog" where
  "py_iter (VList xs) = ret xs"
| "py_iter (VStr s) = ret (map (\<lambda>c. VStr [c]) s)"
| "py_iter _ = raise TypeError"

definition for_in :: "val \<Rightarrow> (val \<Rightarrow> ('h, unit) prog) \<Rightarrow> ('h, unit) prog" where
  "for_in v body = bnd (py_iter v) (for_each body)"

text \<open>\<^verbatim>\<open>recv.name(args)\<close>: \<^verbatim>\<open>None\<close> and the other Python built-ins have none of the methods
  the scripts use; on a host value the host answers.\<close>

definition py_method :: "'h api \<Rightarrow> val \<Rightarrow> string \<Rightarrow> val list \<Rightarrow> ('h, val) prog" where
  "py_method H recv name args =
     (if is_builtin recv then raise AttributeError else call H name (recv # args))"

text \<open>\<^verbatim>\<open>v.name\<close> for the two attributes the scripts read.\<close>

fun py_getattr :: "'h api \<Rightarrow> val \<Rightarrow> string \<Rightarrow> ('h, val) prog" where
  "py_getattr H (VActionMapping n k) name =
     (if name = ''action_name'' then ret n else if name = ''key'' then ret k
      else raise AttributeError)"
| "py_getattr H (VAxisMapping n k sc) name =
     (if name = ''axis_name'' then ret n else if name = ''key'' then ret k
      else if name = ''scale'' then ret sc else raise AttributeError)"
| "py_getattr H v name =
     (if is_builtin v then raise AttributeError else call H ''getattr'' [v, VStr name])"

section \<open>internal_input_setup.py\<close>

definition log_input :: "frag list \<Rightarrow> ('h, unit) prog" where
  "log_input message = emit (Log (T ''[INPUT SETUP] '' # message))"

definition action_mappings :: "(string \<times> val) list" where
  "action_mappings =
     [(''Boost'', VEnum ''Key.E''),
      (''Brake'', VEnum ''Key.R''),
      (''PrimaryFire'', VEnum ''Key.LEFT_MOUSE_BUTTON''),
      (''SecondaryFire'', VEnum ''Key.RIGHT_MOUSE_BUTTON'')]"

definition axis_mappings :: "(string \<times> val \<times> real) list" where
  "axis_mappings =
     [(''MoveForward'', VEnum ''Key.W'', 1.0),
      (''MoveForward'', VEnum ''Key.S'', -1.0),
      (''MoveRight'', VEnum ''Key.D'', 1.0),
      (''MoveRight'', VEnum ''Key.A'', -1.0),
      (''MoveUp'', VEnum ''Key.Q'', 1.0),
      (''MoveUp'', VEnum ''Key.Z'', -1.0),
      (''Turn'', VEnum ''Key.MOUSE_X'', 1.0),
      (''LookUp'', VEnum ''Key.MOUSE_Y'', -1.0),
      (''CameraZoom'', VEnum ''Key.MOUSE_WHEEL_AXIS'', 1.0)]"

definition setup_input_mappings :: "'h api \<Rightarrow> ('h, val) prog" where
  "setup_input_mappings H =
     fn ''internal_input_setup.setup_input_mappings'' [] (
     try_except
       (bnd (call H ''unreal.get_default_object'' [VClass ''InputSettings'']) (\<lambda>input_settings.
        if input_settings = VNone then
          bnd (log_input [T ''Failed to get input settings'']) (\<lambda>_. ret (VBool False))
        else
        bnd (py_method H input_settings ''get_action_mappings'' []) (\<lambda>existing_action_mappings.
        bnd (for_each (\<lambda>(name, key).
               for_in existing_action_mappings (\<lambda>existing.
                 bnd (py_getattr H existing ''action_name'') (\<lambda>n.
                 if n = VStr name then
                   bnd (py_method H input_settings ''remove_action_mapping'' [existing])
                     (\<lambda>_. ret ())
                 else ret ())))
             action_mappings) (\<lambda>_.
        bnd (py_method H input_settings ''get_axis_mappings'' []) (\<lambda>existing_axis_mappings.
        bnd (for_each (\<lambda>(name, key, scale).
               for_in existing_axis_mappings (\<lambda>existing.
                 bnd (py_getattr H existing ''axis_name'') (\<lambda>n.
                 if n = VStr name then
                   bnd (py_method H input_settings ''remove_axis_mapping'' [existing])
                     (\<lambda>_. ret ())
                 else ret ())))
             axis_mappings) (\<lambda>_.
        bnd (for_each (\<lambda>(name, key).
               bnd (py_method H input_settings ''add_action_mapping''
                      [VActionMapping (VStr name) key]) (\<lambda>_.
               log_input [T ''Added action mapping: '', T name, T '' -> '', V key]))
             action_mappings) (\<lambda>_.
        bnd (for_each (\<lambda>(name, key, scale).
               bnd (py_method H input_settings ''add_axis_mapping''
                      [VAxisMapping (VStr name) key (VFloat scale)]) (\<lambda>_.
               log_input [T ''Added axis mapping: '', T name, T '' -> '', V key,
                          T '' (scale: '', V (VFloat scale), T '')'']))
             axis_mappings) (\<lambda>_.
        bnd (call H ''unreal.get_editor_subsystem'' [VClass ''EditorPreferencesSubsystem''])
          (\<lambda>editor_subsystem.
        bnd (py_method H editor_subsystem ''save_config_file'' [input_settings]) (\<lambda>_.
        bnd (log_input [T ''Successfully set up input mappings'']) (\<lambda>_.
        ret (VBool True))))))))))))
       (\<lambda>e. bnd (log_input [T ''Error setting up input mappings: '', X e]) (\<lambda>_.
             ret (VBool False))))"

definition main_input_setup :: "'h api \<Rightarrow> ('h, val) prog" where
  "main_input_setup H =
     fn ''internal_input_setup.main'' [] (
     bnd (log_input [T ''Starting input control system setup...'']) (\<lambda>_.
     bnd (setup_input_mappings H) (\<lambda>ok.
     if \<not> truthy ok then
       bnd (log_input [T ''Failed to set up input mappings, aborting'']) (\<lambda>_. ret VNone)
     else
     bnd (log_input [T ''Input control system setup completed!'']) (\<lambda>_.
     bnd (log_input [T ''You can now use the input mappings in the game'']) (\<lambda>_.
     bnd (log_input [T ''To test them, enter Play-in-Editor mode and use the WASD keys for movement, mouse for aim'']) (\<lambda>_.
     ret VNone))))))"

text \<open>The module body: the definitions, then
  \<^verbatim>\<open>if __name__ == "__main__" or True: main()\<close>.\<close>

definition module_internal_input_setup :: "'h api \<Rightarrow> string \<Rightarrow> ('h, unit) prog" where
  "module_internal_input_setup H dunder_name =
     (if dunder_name = ''__main__'' \<or> True then bnd (main_input_setup H) (\<lambda>_. ret ())
      else ret ())"

section \<open>internal_spaceship_creator.py\<close>

definition BLUEPRINT_PATH :: string where
  "BLUEPRINT_PATH = ''/Game/SpaceDogfight/Blueprints''"

definition SPACESHIP_BP_NAME :: string where
  "SPACESHIP_BP_NAME = ''BP_Spaceship''"

definition SPACESHIP_FULL_PATH :: string where
  "SPACESHIP_FULL_PATH = BLUEPRINT_PATH @ ''/'' @ SPACESHIP_BP_NAME"

definition log_spaceship :: "frag list \<Rightarrow> ('h, unit) prog" where
  "log_spaceship message = emit (Log (T ''[SPACESHIP CREATOR] '' # message))"

text \<open>Consecutive statements that return nothing.\<close>

definition block :: "('h, unit) prog list \<Rightarrow> ('h, unit) prog" where
  "block stmts = for_each (\<lambda>stmt. stmt) stmts"

text \<open>\<^verbatim>\<open>obj.set_editor_property(name, v)\<close> as a statement.\<close>

definition set_editor_property :: "'h api \<Rightarrow> val \<Rightarrow> string \<Rightarrow> val \<Rightarrow> ('h, unit) prog" where
  "set_editor_property H obj name v =
     bnd (py_method H obj ''set_editor_property'' [VStr name, v]) (\<lambda>_. ret ())"

definition ensure_directory_exists :: "'h api \<Rightarrow> string \<Rightarrow> ('h, val) prog" where
  "ensure_directory_exists H path =
     fn ''internal_spaceship_creator.ensure_directory_exists'' [VStr path] (
     bnd (call H ''EditorAssetLibrary.does_directory_exist'' [VStr path]) (\<lambda>exists.
     if \<not> truthy exists then
       bnd (log_spaceship [T ''Creating directory: '', T path]) (\<lambda>_.
       bnd (call H ''EditorAssetLibrary.make_directory'' [VStr path]) (\<lambda>_.
       ret (VBool True)))
     else
       bnd (log_spaceship [T ''Directory already exists: '', T path]) (\<lambda>_.
       ret (VBool True))))"

definition create_spaceship_blueprint :: "'h api \<Rightarrow> ('h, val) prog" where
  "create_spaceship_blueprint H =
     fn ''internal_spaceship_creator.create_spaceship_blueprint'' [] (
     bnd (ensure_directory_exists H BLUEPRINT_PATH) (\<lambda>ok.
     if \<not> truthy ok then
       bnd (log_spaceship [T ''Failed to create blueprint directory'']) (\<lambda>_. ret VNone)
     else
     bnd (call H ''EditorAssetLibrary.does_asset_exist'' [VStr SPACESHIP_FULL_PATH]) (\<lambda>exists.
     if truthy exists then
       bnd (log_spaceship [T ''Blueprint already exists at '', T SPACESHIP_FULL_PATH,
                           T '', using existing blueprint'']) (\<lambda>_.
       call H ''EditorAssetLibrary.load_asset'' [VStr SPACESHIP_FULL_PATH])
     else
     bnd (call H ''unreal.BlueprintFactory'' []) (\<lambda>factory.
     bnd (set_editor_property H factory ''ParentClass'' (VClass ''Pawn'')) (\<lambda>_.
     bnd (call H ''AssetToolsHelpers.get_asset_tools'' []) (\<lambda>asset_tools.
     bnd (py_method H asset_tools ''create_asset''
            [VStr SPACESHIP_BP_NAME, VStr BLUEPRINT_PATH, VNone, factory]) (\<lambda>new_blueprint.
     if new_blueprint = VNone then
       bnd (log_spaceship [T ''Failed to create spaceship blueprint'']) (\<lambda>_. ret VNone)
     else
     bnd (log_spaceship [T ''Successfully created blueprint at '', T SPACESHIP_FULL_PATH]) (\<lambda>_.
     ret new_blueprint))))))))"

text \<open>
  \<^verbatim>\<open>found = None
  for comp in components:
      if comp.get_name() == name:
          found = comp
          break\<close>
\<close>

fun find_component :: "'h api \<Rightarrow> string \<Rightarrow> val list \<Rightarrow> ('h, val) prog" where
  "find_component H name [] = ret VNone"
| "find_component H name (component # rest) =
     bnd (py_method H component ''get_name'' []) (\<lambda>n.
     if n = VStr name then ret component else find_component H name rest)"

text \<open>
  The body of \<^verbatim>\<open>add_components_to_blueprint\<close> is a sequence of commented sections; each is
  a definition of its own here, named after its comment, and the function is their sequence.
\<close>

definition get_root_component :: "'h api \<Rightarrow> val \<Rightarrow> val \<Rightarrow> ('h, val) prog" where
  "get_root_component H blueprint_editor blueprint =
     bnd (call H ''BlueprintEditorLibrary.get_components_from_blueprint'' [blueprint])
       (\<lambda>root_components.
     bnd (bnd (py_iter root_components) (find_component H ''DefaultSceneRoot'')) (\<lambda>root_comp.
     if root_comp = VNone then
       bnd (py_method H blueprint_editor ''add_new_component_to_blueprint''
              [blueprint, VClass ''SceneComponent'', VStr ''DefaultSceneRoot'']) (\<lambda>root_comp.
       bnd (log_spaceship [T ''Created DefaultSceneRoot component'']) (\<lambda>_.
       ret root_comp))
     else ret root_comp))"

definition add_ship_mesh :: "'h api \<Rightarrow> val \<Rightarrow> val \<Rightarrow> val \<Rightarrow> ('h, val) prog" where
  "add_ship_mesh H blueprint_editor blueprint root_comp =
     bnd (py_method H blueprint_editor ''add_new_component_to_blueprint''
            [blueprint, VClass ''StaticMeshComponent'', VStr ''ShipMesh'', root_comp])
       (\<lambda>ship_mesh.
     bnd (if ship_mesh \<noteq> VNone then
            bnd (call H ''unreal.load_asset'' [VStr ''/Engine/BasicShapes/Cone'']) (\<lambda>cone_mesh.
            if cone_mesh \<noteq> VNone then
              block [set_editor_property H ship_mesh ''StaticMesh'' cone_mesh,
                     log_spaceship [T ''Set ship mesh to cone'']]
            else log_spaceship [T ''Failed to load cone mesh''])
          else log_spaceship [T ''Failed to create ship mesh component'']) (\<lambda>_.
     ret ship_mesh))"

definition add_collision :: "'h api \<Rightarrow> val \<Rightarrow> val \<Rightarrow> val \<Rightarrow> ('h, val) prog" where
  "add_collision H blueprint_editor blueprint root_comp =
     bnd (py_method H blueprint_editor ''add_new_component_to_blueprint''
            [blueprint, VClass ''SphereComponent'', VStr ''CollisionSphere'', root_comp])
       (\<lambda>collision.
     bnd (if collision \<noteq> VNone then
            block [set_editor_property H collision ''SphereRadius'' (VFloat 50.0),
                   log_spaceship [T ''Created collision sphere component with 50.0 radius'']]
          else log_spaceship [T ''Failed to create collision component'']) (\<lambda>_.
     ret collision))"

definition add_spring_arm :: "'h api \<Rightarrow> val \<Rightarrow> val \<Rightarrow> val \<Rightarrow> ('h, val) prog" where
  "add_spring_arm H blueprint_editor blueprint root_comp =
     bnd (py_method H blueprint_editor ''add_new_component_to_blueprint''
            [blueprint, VClass ''SpringArmComponent'', VStr ''CameraSpringArm'', root_comp])
       (\<lambda>spring_arm.
     bnd (if spring_arm \<noteq> VNone then
            block [set_editor_property H spring_arm ''TargetArmLength'' (VFloat 400.0),
                   set_editor_property H spring_arm ''bEnableCameraLag'' (VBool True),
                   set_editor_property H spring_arm ''bEnableCameraRotationLag'' (VBool True),
                   set_editor_property H spring_arm ''CameraLagSpeed'' (VFloat 5.0),
                   set_editor_property H spring_arm ''CameraRotationLagSpeed'' (VFloat 5.0),
                   set_editor_property H spring_arm ''bUsePawnControlRotation'' (VBool True),
                   set_editor_property H spring_arm ''RelativeLocation'' (VVector 0.0 0.0 50.0),
                   set_editor_property H spring_arm ''RelativeRotation'' (VRotator (-20.0) 0.0 0.0),
                   log_spaceship [T ''Created and configured camera spring arm'']]
          else log_spaceship [T ''Failed to create spring arm component'']) (\<lambda>_.
     ret spring_arm))"

definition add_camera :: "'h api \<Rightarrow> val \<Rightarrow> val \<Rightarrow> val \<Rightarrow> ('h, val) prog" where
  "add_camera H blueprint_editor blueprint spring_arm =
     bnd (py_method H blueprint_editor ''add_new_component_to_blueprint''
            [blueprint, VClass ''CameraComponent'', VStr ''FollowCamera'', spring_arm])
       (\<lambda>camera.
     bnd (if camera \<noteq> VNone then
            block [set_editor_property H camera ''FieldOfView'' (VFloat 90.0),
                   log_spaceship [T ''Created and configured camera component'']]
          else log_spaceship [T ''Failed to create camera component'']) (\<lambda>_.
     ret camera))"

definition add_movement :: "'h api \<Rightarrow> val \<Rightarrow> val \<Rightarrow> val \<Rightarrow> ('h, val) prog" where
  "add_movement H blueprint_editor blueprint root_comp =
     bnd (py_method H blueprint_editor ''add_new_component_to_blueprint''
            [blueprint, VClass ''FloatingPawnMovement'', VStr ''MovementComponent'', root_comp])
       (\<lambda>movement.
     bnd (if movement \<noteq> VNone then
            block [set_editor_property H movement ''MaxSpeed'' (VFloat 1000.0),
                   set_editor_property H movement ''Acceleration'' (VFloat 4000.0),
                   set_editor_property H movement ''Deceleration'' (VFloat 2000.0),
                   set_editor_property H movement ''TurningBoost'' (VFloat 8.0),
                   set_editor_property H movement ''bConstrainToPlane'' (VBool False),
                   log_spaceship [T ''Created and configured movement component'']]
          else log_spaceship [T ''Failed to create movement component'']) (\<lambda>_.
     ret movement))"

definition add_components_to_blueprint :: "'h api \<Rightarrow> val \<Rightarrow> ('h, val) prog" where
  "add_components_to_blueprint H blueprint =
     fn ''internal_spaceship_creator.add_components_to_blueprint'' [blueprint] (
     if blueprint = VNone then
       bnd (log_spaceship [T ''No blueprint provided, cannot add components'']) (\<lambda>_.
       ret (VBool False))
     else
     bnd (call H ''EditorAssetLibrary.load_blueprint_class'' [VStr SPACESHIP_FULL_PATH])
       (\<lambda>blueprint_obj.
     if blueprint_obj = VNone then
       bnd (log_spaceship [T ''Failed to load blueprint class'']) (\<lambda>_. ret (VBool False))
     else
     try_except
       (bnd (call H ''unreal.get_editor_subsystem'' [VClass ''BlueprintEditorSubsystem''])
          (\<lambda>blueprint_editor.
        bnd (py_method H blueprint_editor ''open_blueprint'' [blueprint]) (\<lambda>_.
        bnd (get_root_component H blueprint_editor blueprint) (\<lambda>root_comp.
        bnd (add_ship_mesh H blueprint_editor blueprint root_comp) (\<lambda>ship_mesh.
        bnd (add_collision H blueprint_editor blueprint root_comp) (\<lambda>collision.
        bnd (add_spring_arm H blueprint_editor blueprint root_comp) (\<lambda>spring_arm.
        bnd (add_camera H blueprint_editor blueprint spring_arm) (\<lambda>camera.
        bnd (add_movement H blueprint_editor blueprint root_comp) (\<lambda>movement.
        bnd (py_method H blueprint_editor ''compile_blueprint'' [blueprint]) (\<lambda>_.
        bnd (call H ''EditorAssetLibrary.save_asset'' [VStr SPACESHIP_FULL_PATH]) (\<lambda>_.
        bnd (log_spaceship [T ''Successfully added components to spaceship blueprint''])
          (\<lambda>_.
        ret (VBool True)))))))))))))
       (\<lambda>e. bnd (log_spaceship [T ''Error adding components: '', X e]) (\<lambda>_.
             ret (VBool False)))))"

definition float_pin :: val where
  "float_pin = VPinType (VEnum ''PinCategory.float'') VNone"

definition variables :: "(string \<times> val \<times> val) list" where
  "variables =
     [(''Health'', float_pin, VFloat 100.0),
      (''MaxSpeed'', float_pin, VFloat 1000.0),
      (''ThrustForce'', float_pin, VFloat 4000.0),
      (''RollRate'', float_pin, VFloat 100.0),
      (''PitchRate'', float_pin, VFloat 90.0),
      (''YawRate'', float_pin, VFloat 90.0),
      (''LinearDamping'', float_pin, VFloat 0.1),
      (''AngularDamping'', float_pin, VFloat 0.3),
      (''BoostMultiplier'', float_pin, VFloat 2.0),
      (''BrakeForce'', float_pin, VFloat 3000.0),
      (''MinZoomDistance'', float_pin, VFloat 200.0),
      (''MaxZoomDistance'', float_pin, VFloat 800.0),
      (''ZoomSpeed'', float_pin, VFloat 50.0),
      (''CurrentZoomTarget'', float_pin, VFloat 400.0),
      (''BoostCameraShakeIntensity'', float_pin, VFloat 1.0),
      (''DamageCameraShakeIntensity'', float_pin, VFloat 2.0),
      (''CameraShakeDuration'', float_pin, VFloat 0.3)]"

definition add_blueprint_variables :: "'h api \<Rightarrow> val \<Rightarrow> ('h, val) prog" where
  "add_blueprint_variables H blueprint =
     fn ''internal_spaceship_creator.add_blueprint_variables'' [blueprint] (
     if blueprint = VNone then
       bnd (log_spaceship [T ''No blueprint provided, cannot add variables'']) (\<lambda>_.
       ret (VBool False))
     else
     try_except
       (bnd (call H ''unreal.get_editor_subsystem'' [VClass ''BlueprintEditorSubsystem''])
          (\<lambda>blueprint_editor.
        bnd (for_each (\<lambda>(name, type, default_value).
               try_except
                 (bnd (call H ''BlueprintEditorLibrary.does_member_variable_exist''
                         [blueprint, VStr name]) (\<lambda>exists.
                  if truthy exists then
                    log_spaceship [T ''Variable '', T name, T '' already exists, skipping'']
                  else
                  bnd (py_method H blueprint_editor ''add_member_variable''
                         [blueprint, VStr name, type, default_value]) (\<lambda>result.
                  if truthy result then
                    log_spaceship [T ''Added variable '', T name, T '' with value '',
                                   V default_value]
                  else log_spaceship [T ''Failed to add variable '', T name])))
                 (\<lambda>var_error.
                    log_spaceship [T ''Error adding variable '', T name, T '': '', X var_error]))
             variables) (\<lambda>_.
        bnd (py_method H blueprint_editor ''compile_blueprint'' [blueprint]) (\<lambda>_.
        bnd (call H ''EditorAssetLibrary.save_asset'' [VStr SPACESHIP_FULL_PATH]) (\<lambda>_.
        bnd (log_spaceship [T ''Successfully added variables to spaceship blueprint''])
          (\<lambda>_.
        ret (VBool True)))))))
       (\<lambda>e. bnd (log_spaceship [T ''Error adding blueprint variables: '', X e]) (\<lambda>_.
             ret (VBool False))))"

text \<open>
  \<^verbatim>\<open>for actor in actors:
      if actor.get_actor_label() == "TestSpaceship":
          log(..); editor_level_lib.destroy_actor(actor); break\<close>
\<close>

fun remove_test_instance :: "'h api \<Rightarrow> val list \<Rightarrow> ('h, unit) prog" where
  "remove_test_instance H [] = ret ()"
| "remove_test_instance H (actor # rest) =
     bnd (py_method H actor ''get_actor_label'' []) (\<lambda>label.
     if label = VStr ''TestSpaceship'' then
       bnd (log_spaceship [T ''Test spaceship already exists, removing it'']) (\<lambda>_.
       bnd (call H ''EditorLevelLibrary.destroy_actor'' [actor]) (\<lambda>_. ret ()))
     else remove_test_instance H rest)"

definition spawn_test_instance :: "'h api \<Rightarrow> ('h, val) prog" where
  "spawn_test_instance H =
     fn ''internal_spaceship_creator.spawn_test_instance'' [] (
     try_except
       (bnd (call H ''EditorAssetLibrary.load_blueprint_class'' [VStr SPACESHIP_FULL_PATH])
          (\<lambda>blueprint_class.
        if blueprint_class = VNone then
          bnd (log_spaceship [T ''Failed to load spaceship blueprint class'']) (\<lambda>_.
          ret (VBool False))
        else
        bnd (call H ''EditorLevelLibrary.get_all_level_actors'' []) (\<lambda>actors.
        bnd (bnd (py_iter actors) (remove_test_instance H)) (\<lambda>_.
        bnd (call H ''EditorLevelLibrary.spawn_actor_from_class''
               [blueprint_class,
                VTransform (VVector 0.0 0.0 200.0) (VRotator 0.0 0.0 0.0) (VVector 1.0 1.0 1.0)])
          (\<lambda>spawned_actor.
        if spawned_actor = VNone then
          bnd (log_spaceship [T ''Failed to spawn test spaceship'']) (\<lambda>_. ret (VBool False))
        else
        bnd (py_method H spawned_actor ''set_actor_label'' [VStr ''TestSpaceship'']) (\<lambda>_.
        bnd (log_spaceship [T ''Successfully spawned test spaceship'']) (\<lambda>_.
        ret (VBool True))))))))
       (\<lambda>e. bnd (log_spaceship [T ''Error spawning test instance: '', X e]) (\<lambda>_.
             ret (VBool False))))"

definition main_spaceship_creator :: "'h api \<Rightarrow> ('h, val) prog" where
  "main_spaceship_creator H =
     fn ''internal_spaceship_creator.main'' [] (
     bnd (log_spaceship [T ''Starting spaceship setup...'']) (\<lambda>_.
     bnd (create_spaceship_blueprint H) (\<lambda>blueprint.
     if blueprint = VNone then
       bnd (log_spaceship [T ''Failed to create or get spaceship blueprint, aborting''])
         (\<lambda>_. ret VNone)
     else
     bnd (add_components_to_blueprint H blueprint) (\<lambda>ok.
     bnd (if \<not> truthy ok then
            log_spaceship [T ''Failed to add components to blueprint, continuing anyway'']
          else ret ()) (\<lambda>_.
     bnd (add_blueprint_variables H blueprint) (\<lambda>ok.
     bnd (if \<not> truthy ok then
            log_spaceship [T ''Failed to add variables to blueprint, continuing anyway'']
          else ret ()) (\<lambda>_.
     bnd (spawn_test_instance H) (\<lambda>ok.
     bnd (if \<not> truthy ok then
            log_spaceship [T ''Failed to spawn test instance, continuing anyway'']
          else ret ()) (\<lambda>_.
     bnd (block [log_spaceship [T ''Spaceship setup completed!''],
                 log_spaceship [T ''You can now use the blueprint in the Unreal Editor''],
                 log_spaceship [T ''Blueprint path: '', T SPACESHIP_FULL_PATH],
                 log_spaceship [T ''Test instance spawned in the current level'']]) (\<lambda>_.
     ret VNone))))))))))"

definition module_internal_spaceship_creator :: "'h api \<Rightarrow> string \<Rightarrow> ('h, unit) prog" where
  "module_internal_spaceship_creator H dunder_name =
     (if dunder_name = ''__main__'' \<or> True then
        bnd (main_spaceship_creator H) (\<lambda>_. ret ())
      else ret ())"

section \<open>internal_weapon_system.py\<close>

text \<open>
  The file repeats the path constants of the spaceship script with the same values.
  It does not compile: line 453 reads \<^verbatim>\<open>unreal.PinCategory.class\<close>, and \<^verbatim>\<open>class\<close> is a
  keyword of Python, so loading the file raises \<^verbatim>\<open>SyntaxError\<close> before any statement of it
  runs (see \<open>module_internal_weapon_system\<close>).  The functions below are what the text of
  the file says, reading that expression as an enum constant like its neighbours.
\<close>

definition WEAPONS_PATH :: string where
  "WEAPONS_PATH = ''/Game/SpaceDogfight/Weapons''"

definition LASER_BP_NAME :: string where
  "LASER_BP_NAME = ''BP_LaserProjectile''"

definition MISSILE_BP_NAME :: string where
  "MISSILE_BP_NAME = ''BP_MissileProjectile''"

definition LASER_FULL_PATH :: string where
  "LASER_FULL_PATH = WEAPONS_PATH @ ''/'' @ LASER_BP_NAME"

definition MISSILE_FULL_PATH :: string where
  "MISSILE_FULL_PATH = WEAPONS_PATH @ ''/'' @ MISSILE_BP_NAME"

definition log_weapon :: "frag list \<Rightarrow> ('h, unit) prog" where
  "log_weapon message = emit (Log (T ''[WEAPON SYSTEM] '' # message))"

text \<open>An expression statement: the value is dropped.\<close>

definition stmt :: "('h, val) prog \<Rightarrow> ('h, unit) prog" where
  "stmt m = bnd m (\<lambda>_. ret ())"

definition ensure_directory_exists_weapon :: "'h api \<Rightarrow> string \<Rightarrow> ('h, val) prog" where
  "ensure_directory_exists_weapon H path =
     fn ''internal_weapon_system.ensure_directory_exists'' [VStr path] (
     bnd (call H ''EditorAssetLibrary.does_directory_exist'' [VStr path]) (\<lambda>exists.
     if \<not> truthy exists then
       bnd (log_weapon [T ''Creating directory: '', T path]) (\<lambda>_.
       bnd (call H ''EditorAssetLibrary.make_directory'' [VStr path]) (\<lambda>_.
       ret (VBool True)))
     else
       bnd (log_weapon [T ''Directory already exists: '', T path]) (\<lambda>_.
       ret (VBool True))))"

definition create_laser_projectile_blueprint :: "'h api \<Rightarrow> ('h, val) prog" where
  "create_laser_projectile_blueprint H =
     fn ''internal_weapon_system.create_laser_projectile_blueprint'' [] (
     bnd (ensure_directory_exists_weapon H WEAPONS_PATH) (\<lambda>ok.
     if \<not> truthy ok then
       bnd (log_weapon [T ''Failed to create weapons directory'']) (\<lambda>_. ret VNone)
     else
     bnd (call H ''EditorAssetLibrary.does_asset_exist'' [VStr LASER_FULL_PATH]) (\<lambda>exists.
     if truthy exists then
       bnd (log_weapon [T ''Laser blueprint already exists at '', T LASER_FULL_PATH,
                        T '', using existing blueprint'']) (\<lambda>_.
       call H ''EditorAssetLibrary.load_asset'' [VStr LASER_FULL_PATH])
     else
     bnd (call H ''unreal.BlueprintFactory'' []) (\<lambda>factory.
     bnd (set_editor_property H factory ''ParentClass'' (VClass ''Actor'')) (\<lambda>_.
     bnd (call H ''AssetToolsHelpers.get_asset_tools'' []) (\<lambda>asset_tools.
     bnd (py_method H asset_tools ''create_asset''
            [VStr LASER_BP_NAME, VStr WEAPONS_PATH, VNone, factory]) (\<lambda>new_blueprint.
     if new_blueprint = VNone then
       bnd (log_weapon [T ''Failed to create laser projectile blueprint'']) (\<lambda>_. ret VNone)
     else
     bnd (log_weapon [T ''Successfully created laser blueprint at '', T LASER_FULL_PATH]) (\<lambda>_.
     ret new_blueprint))))))))"

definition create_missile_projectile_blueprint :: "'h api \<Rightarrow> ('h, val) prog" where
  "create_missile_projectile_blueprint H =
     fn ''internal_weapon_system.create_missile_projectile_blueprint'' [] (
     bnd (ensure_directory_exists_weapon H WEAPONS_PATH) (\<lambda>ok.
     if \<not> truthy ok then
       bnd (log_weapon [T ''Failed to create weapons directory'']) (\<lambda>_. ret VNone)
     else
     bnd (call H ''EditorAssetLibrary.does_asset_exist'' [VStr MISSILE_FULL_PATH]) (\<lambda>exists.
     if truthy exists then
       bnd (log_weapon [T ''Missile blueprint already exists at '', T MISSILE_FULL_PATH,
                        T '', using existing blueprint'']) (\<lambda>_.
       call H ''EditorAssetLibrary.load_asset'' [VStr MISSILE_FULL_PATH])
     else
     bnd (call H ''unreal.BlueprintFactory'' []) (\<lambda>factory.
     bnd (set_editor_property H factory ''ParentClass'' (VClass ''Actor'')) (\<lambda>_.
     bnd (call H ''AssetToolsHelpers.get_asset_tools'' []) (\<lambda>asset_tools.
     bnd (py_method H asset_tools ''create_asset''
            [VStr MISSILE_BP_NAME, VStr WEAPONS_PATH, VNone, factory]) (\<lambda>new_blueprint.
     if new_blueprint = VNone then
       bnd (log_weapon [T ''Failed to create missile projectile blueprint'']) (\<lambda>_. ret VNone)
     else
     bnd (log_weapon [T ''Successfully created missile blueprint at '', T MISSILE_FULL_PATH])
       (\<lambda>_.
     ret new_blueprint))))))))"

definition setup_laser_components :: "'h api \<Rightarrow> val \<Rightarrow> ('h, val) prog" where
  "setup_laser_components H blueprint =
     fn ''internal_weapon_system.setup_laser_components'' [blueprint] (
     if blueprint = VNone then
       bnd (log_weapon [T ''No blueprint provided, cannot add components'']) (\<lambda>_.
       ret (VBool False))
     else
     try_except
       (bnd (call H ''unreal.get_editor_subsystem'' [VClass ''BlueprintEditorSubsystem''])
          (\<lambda>blueprint_editor.
        bnd (py_method H blueprint_editor ''open_blueprint'' [blueprint]) (\<lambda>_.
        bnd (call H ''BlueprintEditorLibrary.get_components_from_blueprint'' [blueprint])
          (\<lambda>root_components.
        bnd (bnd (py_iter root_components) (find_component H ''DefaultSceneRoot''))
          (\<lambda>found.
        bnd (if found = VNone then
               bnd (py_method H blueprint_editor ''add_new_component_to_blueprint''
                      [blueprint, VClass ''SceneComponent'', VStr ''DefaultSceneRoot''])
                 (\<lambda>created.
               bnd (log_weapon [T ''Created DefaultSceneRoot component for laser'']) (\<lambda>_.
               ret created))
             else ret found) (\<lambda>root_comp.
        bnd (py_method H blueprint_editor ''add_new_component_to_blueprint''
               [blueprint, VClass ''ProjectileMovementComponent'', VStr ''ProjectileMovement'',
                root_comp]) (\<lambda>projectile_movement.
        bnd (if projectile_movement \<noteq> VNone then
               block [set_editor_property H projectile_movement ''InitialSpeed'' (VFloat 8000.0),
                      set_editor_property H projectile_movement ''MaxSpeed'' (VFloat 8000.0),
                      set_editor_property H projectile_movement ''bRotationFollowsVelocity''
                        (VBool True),
                      set_editor_property H projectile_movement ''ProjectileGravityScale''
                        (VFloat 0.0),
                      log_weapon [T ''Created and configured projectile movement component for laser'']]
             else log_weapon [T ''Failed to create projectile movement component for laser''])
          (\<lambda>_.
        bnd (py_method H blueprint_editor ''add_new_component_to_blueprint''
               [blueprint, VClass ''StaticMeshComponent'', VStr ''LaserVisual'', root_comp])
          (\<lambda>cylinder.
        bnd (if cylinder \<noteq> VNone then
               bnd (call H ''unreal.load_asset'' [VStr ''/Engine/BasicShapes/Cylinder''])
                 (\<lambda>cylinder_mesh.
               if cylinder_mesh \<noteq> VNone then
                 block [set_editor_property H cylinder ''StaticMesh'' cylinder_mesh,
                        set_editor_property H cylinder ''RelativeScale3D'' (VVector 0.1 0.1 1.5),
                        set_editor_property H cylinder ''RelativeRotation''
                          (VRotator 90.0 0.0 0.0),
                        log_weapon [T ''Set laser visual to scaled cylinder'']]
               else log_weapon [T ''Failed to load cylinder mesh for laser''])
             else log_weapon [T ''Failed to create visual component for laser'']) (\<lambda>_.
        bnd (py_method H blueprint_editor ''add_new_component_to_blueprint''
               [blueprint, VClass ''CapsuleComponent'', VStr ''CollisionCapsule'', root_comp])
          (\<lambda>collision.
        bnd (if collision \<noteq> VNone then
               block [set_editor_property H collision ''CapsuleHalfHeight'' (VFloat 75.0),
                      set_editor_property H collision ''CapsuleRadius'' (VFloat 5.0),
                      set_editor_property H collision ''CollisionEnabled''
                        (VEnum ''CollisionEnabled.QUERY_ONLY''),
                      set_editor_property H collision ''RelativeRotation''
                        (VRotator 90.0 0.0 0.0),
                      log_weapon [T ''Created and configured collision component for laser'']]
             else log_weapon [T ''Failed to create collision component for laser'']) (\<lambda>_.
        bnd (try_except
               (block [stmt (py_method H blueprint_editor ''add_member_variable''
                               [blueprint, VStr ''Damage'', float_pin, VFloat 20.0]),
                       log_weapon [T ''Added Damage variable to laser''],
                       stmt (py_method H blueprint_editor ''add_member_variable''
                               [blueprint, VStr ''Lifetime'', float_pin, VFloat 2.0]),
                       log_weapon [T ''Added Lifetime variable to laser'']])
               (\<lambda>var_error.
                  log_weapon [T ''Error adding variables to laser: '', X var_error])) (\<lambda>_.
        bnd (py_method H blueprint_editor ''compile_blueprint'' [blueprint]) (\<lambda>_.
        bnd (call H ''EditorAssetLibrary.save_asset'' [VStr LASER_FULL_PATH]) (\<lambda>_.
        bnd (log_weapon [T ''Successfully set up laser projectile components'']) (\<lambda>_.
        ret (VBool True)))))))))))))))))
       (\<lambda>e. bnd (log_weapon [T ''Error setting up laser components: '', X e]) (\<lambda>_.
             ret (VBool False))))"

definition setup_missile_components :: "'h api \<Rightarrow> val \<Rightarrow> ('h, val) prog" where
  "setup_missile_components H blueprint =
     fn ''internal_weapon_system.setup_missile_components'' [blueprint] (
     if blueprint = VNone then
       bnd (log_weapon [T ''No blueprint provided, cannot add components'']) (\<lambda>_.
       ret (VBool False))
     else
     try_except
       (bnd (call H ''unreal.get_editor_subsystem'' [VClass ''BlueprintEditorSubsystem''])
          (\<lambda>blueprint_editor.
        bnd (py_method H blueprint_editor ''open_blueprint'' [blueprint]) (\<lambda>_.
        bnd (call H ''BlueprintEditorLibrary.get_components_from_blueprint'' [blueprint])
          (\<lambda>root_components.
        bnd (bnd (py_iter root_components) (find_component H ''DefaultSceneRoot''))
          (\<lambda>found.
        bnd (if found = VNone then
               bnd (py_method H blueprint_editor ''add_new_component_to_blueprint''
                      [blueprint, VClass ''SceneComponent'', VStr ''DefaultSceneRoot''])
                 (\<lambda>created.
               bnd (log_weapon [T ''Created DefaultSceneRoot component for missile'']) (\<lambda>_.
               ret created))
             else ret found) (\<lambda>root_comp.
        bnd (py_method H blueprint_editor ''add_new_component_to_blueprint''
               [blueprint, VClass ''ProjectileMovementComponent'', VStr ''ProjectileMovement'',
                root_comp]) (\<lambda>projectile_movement.
        bnd (if projectile_movement \<noteq> VNone then
               block [set_editor_property H projectile_movement ''InitialSpeed'' (VFloat 3000.0),
                      set_editor_property H projectile_movement ''MaxSpeed'' (VFloat 6000.0),
                      set_editor_property H projectile_movement ''bRotationFollowsVelocity''
                        (VBool True),
                      set_editor_property H projectile_movement ''ProjectileGravityScale''
                        (VFloat 0.0),
                      set_editor_property H projectile_movement ''bIsHomingProjectile''
                        (VBool True),
                      set_editor_property H projectile_movement ''HomingAccelerationMagnitude''
                        (VFloat 8000.0),
                      log_weapon [T ''Created and configured projectile movement component for missile'']]
             else log_weapon [T ''Failed to create projectile movement component for missile''])
          (\<lambda>_.
        bnd (py_method H blueprint_editor ''add_new_component_to_blueprint''
               [blueprint, VClass ''StaticMeshComponent'', VStr ''MissileVisual'', root_comp])
          (\<lambda>cone.
        bnd (if cone \<noteq> VNone then
               bnd (call H ''unreal.load_asset'' [VStr ''/Engine/BasicShapes/Cone''])
                 (\<lambda>cone_mesh.
               if cone_mesh \<noteq> VNone then
                 block [set_editor_property H cone ''StaticMesh'' cone_mesh,
                        set_editor_property H cone ''RelativeScale3D'' (VVector 0.3 0.3 0.6),
                        set_editor_property H cone ''RelativeRotation'' (VRotator 0.0 0.0 0.0),
                        log_weapon [T ''Set missile visual to scaled cone'']]
               else log_weapon [T ''Failed to load cone mesh for missile''])
             else log_weapon [T ''Failed to create visual component for missile'']) (\<lambda>_.
        bnd (py_method H blueprint_editor ''add_new_component_to_blueprint''
               [blueprint, VClass ''SphereComponent'', VStr ''CollisionSphere'', root_comp])
          (\<lambda>collision.
        bnd (if collision \<noteq> VNone then
               block [set_editor_property H collision ''SphereRadius'' (VFloat 15.0),
                      set_editor_property H collision ''CollisionEnabled''
                        (VEnum ''CollisionEnabled.QUERY_ONLY''),
                      log_weapon [T ''Created and configured collision component for missile'']]
             else log_weapon [T ''Failed to create collision component for missile'']) (\<lambda>_.
        bnd (try_except
               (block [stmt (py_method H blueprint_editor ''add_member_variable''
                               [blueprint, VStr ''Damage'', float_pin, VFloat 50.0]),
                       log_weapon [T ''Added Damage variable to missile''],
                       stmt (py_method H blueprint_editor ''add_member_variable''
                               [blueprint, VStr ''Lifetime'', float_pin, VFloat 5.0]),
                       log_weapon [T ''Added Lifetime variable to missile''],
                       stmt (py_method H blueprint_editor ''add_member_variable''
                               [blueprint, VStr ''ExplosionRadius'', float_pin, VFloat 200.0]),
                       log_weapon [T ''Added ExplosionRadius variable to missile''],
                       stmt (py_method H blueprint_editor ''add_member_variable''
                               [blueprint, VStr ''HomingTarget'',
                                VPinType (VEnum ''PinCategory.object'') (VClass ''Actor''),
                                VNone]),
                       log_weapon [T ''Added HomingTarget variable to missile'']])
               (\<lambda>var_error.
                  log_weapon [T ''Error adding variables to missile: '', X var_error])) (\<lambda>_.
        bnd (py_method H blueprint_editor ''compile_blueprint'' [blueprint]) (\<lambda>_.
        bnd (call H ''EditorAssetLibrary.save_asset'' [VStr MISSILE_FULL_PATH]) (\<lambda>_.
        bnd (log_weapon [T ''Successfully set up missile projectile components'']) (\<lambda>_.
        ret (VBool True)))))))))))))))))
       (\<lambda>e. bnd (log_weapon [T ''Error setting up missile components: '', X e]) (\<lambda>_.
             ret (VBool False))))"

text \<open>One weapon mount: the component, then its position when the host returned one.\<close>

definition add_weapon_mount ::
  "'h api \<Rightarrow> val \<Rightarrow> val \<Rightarrow> val \<Rightarrow> string \<Rightarrow> val \<Rightarrow> string \<Rightarrow> ('h, unit) prog" where
  "add_weapon_mount H blueprint_editor spaceship_bp ship_mesh name location side =
     bnd (py_method H blueprint_editor ''add_new_component_to_blueprint''
            [spaceship_bp, VClass ''SceneComponent'', VStr name, ship_mesh]) (\<lambda>mount.
     if mount \<noteq> VNone then
       block [set_editor_property H mount ''RelativeLocation'' location,
              log_weapon [T ''Added '', T side, T '' weapon mount point'']]
     else log_weapon [T ''Failed to add '', T side, T '' weapon mount point''])"

definition add_weapon_components_to_spaceship :: "'h api \<Rightarrow> ('h, val) prog" where
  "add_weapon_components_to_spaceship H =
     fn ''internal_weapon_system.add_weapon_components_to_spaceship'' [] (
     try_except
       (bnd (call H ''EditorAssetLibrary.load_asset'' [VStr SPACESHIP_FULL_PATH])
          (\<lambda>spaceship_bp.
        if spaceship_bp = VNone then
          bnd (log_weapon [T ''Failed to load spaceship blueprint at '', T SPACESHIP_FULL_PATH])
            (\<lambda>_.
          bnd (log_weapon [T ''Make sure to run the spaceship creator script first'']) (\<lambda>_.
          ret (VBool False)))
        else
        bnd (call H ''unreal.get_editor_subsystem'' [VClass ''BlueprintEditorSubsystem''])
          (\<lambda>blueprint_editor.
        bnd (py_method H blueprint_editor ''open_blueprint'' [spaceship_bp]) (\<lambda>_.
        bnd (call H ''BlueprintEditorLibrary.get_components_from_blueprint'' [spaceship_bp])
          (\<lambda>components.
        bnd (bnd (py_iter components) (find_component H ''ShipMesh'')) (\<lambda>ship_mesh.
        if ship_mesh = VNone then
          bnd (log_weapon [T ''Could not find ShipMesh component in spaceship blueprint''])
            (\<lambda>_.
          ret (VBool False))
        else
        bnd (add_weapon_mount H blueprint_editor spaceship_bp ship_mesh ''LeftWeaponMount''
               (VVector (-30.0) (-30.0) 0.0) ''left'') (\<lambda>_.
        bnd (add_weapon_mount H blueprint_editor spaceship_bp ship_mesh ''RightWeaponMount''
               (VVector (-30.0) 30.0 0.0) ''right'') (\<lambda>_.
        bnd (add_weapon_mount H blueprint_editor spaceship_bp ship_mesh ''CenterWeaponMount''
               (VVector (-30.0) 0.0 (-20.0)) ''center'') (\<lambda>_.
        bnd (try_except
               (block [stmt (py_method H blueprint_editor ''add_member_variable''
                               [spaceship_bp, VStr ''LaserCooldown'', float_pin, VFloat 0.2]),
                       log_weapon [T ''Added LaserCooldown variable to spaceship''],
                       stmt (py_method H blueprint_editor ''add_member_variable''
                               [spaceship_bp, VStr ''MissileCooldown'', float_pin, VFloat 2.0]),
                       log_weapon [T ''Added MissileCooldown variable to spaceship''],
                       stmt (py_method H blueprint_editor ''add_member_variable''
                               [spaceship_bp, VStr ''MaxMissiles'',
                                VPinType (VEnum ''PinCategory.int'') VNone, VInt 8]),
                       log_weapon [T ''Added MaxMissiles variable to spaceship''],
                       stmt (py_method H blueprint_editor ''add_member_variable''
                               [spaceship_bp, VStr ''CurrentMissiles'',
                                VPinType (VEnum ''PinCategory.int'') VNone, VInt 8]),
                       log_weapon [T ''Added CurrentMissiles variable to spaceship''],
                       stmt (py_method H blueprint_editor ''add_member_variable''
                               [spaceship_bp, VStr ''LaserProjectileClass'',
                                VPinType (VEnum ''PinCategory.class'') VNone, VNone]),
                       stmt (py_method H blueprint_editor ''add_member_variable''
                               [spaceship_bp, VStr ''MissileProjectileClass'',
                                VPinType (VEnum ''PinCategory.class'') VNone, VNone]),
                       log_weapon [T ''Added weapon class reference variables to spaceship'']])
               (\<lambda>var_error.
                  log_weapon [T ''Error adding weapon variables to spaceship: '', X var_error]))
          (\<lambda>_.
        bnd (py_method H blueprint_editor ''compile_blueprint'' [spaceship_bp]) (\<lambda>_.
        bnd (call H ''EditorAssetLibrary.save_asset'' [VStr SPACESHIP_FULL_PATH]) (\<lambda>_.
        bnd (log_weapon [T ''Successfully added weapon components to spaceship'']) (\<lambda>_.
        ret (VBool True))))))))))))))
       (\<lambda>e. bnd (log_weapon [T ''Error adding weapon components to spaceship: '', X e]) (\<lambda>_.
             ret (VBool False))))"

definition main_weapon_system :: "'h api \<Rightarrow> ('h, val) prog" where
  "main_weapon_system H =
     fn ''internal_weapon_system.main'' [] (
     bnd (log_weapon [T ''Starting weapon system setup...'']) (\<lambda>_.
     bnd (create_laser_projectile_blueprint H) (\<lambda>laser_bp.
     bnd (if laser_bp = VNone then
            log_weapon [T ''Failed to create or get laser projectile blueprint, continuing anyway'']
          else
            bnd (setup_laser_components H laser_bp) (\<lambda>ok.
            if \<not> truthy ok then
              log_weapon [T ''Failed to set up laser components, continuing anyway'']
            else ret ())) (\<lambda>_.
     bnd (create_missile_projectile_blueprint H) (\<lambda>missile_bp.
     bnd (if missile_bp = VNone then
            log_weapon [T ''Failed to create or get missile projectile blueprint, continuing anyway'']
          else
            bnd (setup_missile_components H missile_bp) (\<lambda>ok.
            if \<not> truthy ok then
              log_weapon [T ''Failed to set up missile components, continuing anyway'']
            else ret ())) (\<lambda>_.
     bnd (add_weapon_components_to_spaceship H) (\<lambda>ok.
     bnd (if \<not> truthy ok then
            log_weapon [T ''Failed to add weapon components to spaceship, continuing anyway'']
          else ret ()) (\<lambda>_.
     bnd (block [log_weapon [T ''Weapon system setup completed!''],
                 log_weapon [T (''Note: You'' @ [CHR 0x27] @ ''ll need to manually wire up the weapon firing logic in the spaceship blueprint:'')],
                 log_weapon [T ''1. Create Fire functions that spawn projectiles from the weapon mounts''],
                 log_weapon [T ''2. Connect the PrimaryFire and SecondaryFire input events to these functions''],
                 log_weapon [T ''3. Set the LaserProjectileClass and MissileProjectileClass references in the spaceship blueprint'']])
       (\<lambda>_.
     ret VNone)))))))))"

text \<open>Loading the file stops at the syntax error of line 453; \<^verbatim>\<open>main()\<close> of its last line
  is never reached.\<close>

definition module_internal_weapon_system :: "'h api \<Rightarrow> string \<Rightarrow> ('h, unit) prog" where
  "module_internal_weapon_system H dunder_name = raise SyntaxError"

section \<open>internal_complete_setup.py\<close>

text \<open>
  \<^verbatim>\<open>SCRIPT_DIR\<close> is computed from \<^verbatim>\<open>__file__\<close> when the module is loaded; it is a parameter
  here.  \<^verbatim>\<open>os.path.join\<close> is the POSIX one.  The files next to the script are taken to be the
  three scripts of the repository: loading one runs its module body.
\<close>

definition log_setup :: "frag list \<Rightarrow> ('h, unit) prog" where
  "log_setup message = emit (Log (T ''[SETUP] '' # message))"

definition os_path_join :: "string \<Rightarrow> string \<Rightarrow> string" where
  "os_path_join a b =
     (if b \<noteq> [] \<and> hd b = CHR ''/'' then b
      else if a = [] \<or> last a = CHR ''/'' then a @ b
      else a @ ''/'' @ b)"

text \<open>\<^verbatim>\<open>if SCRIPT_DIR not in sys.path: sys.path.append(SCRIPT_DIR)\<close>\<close>

definition add_to_sys_path :: "string \<Rightarrow> ('h, unit) prog" where
  "add_to_sys_path d = (\<lambda>s.
     (Inr (), if d \<notin> set (sys_path s) then s\<lparr>sys_path := sys_path s @ [d]\<rparr> else s, []))"

definition module_body :: "'h api \<Rightarrow> string \<Rightarrow> ('h, unit) prog" where
  "module_body H module_name =
     (if module_name = ''internal_spaceship_creator'' then
        module_internal_spaceship_creator H module_name
      else if module_name = ''internal_input_setup'' then
        module_internal_input_setup H module_name
      else if module_name = ''internal_weapon_system'' then
        module_internal_weapon_system H module_name
      else raise (HostError ''No such file''))"

text \<open>\<^verbatim>\<open>hasattr(module, 'main')\<close> and \<^verbatim>\<open>module.main()\<close> once the module body has run.\<close>

definition has_main :: "string \<Rightarrow> bool" where
  "has_main module_name =
     (module_name \<in> set [''internal_spaceship_creator'', ''internal_input_setup'',
                          ''internal_weapon_system''])"

definition module_main :: "'h api \<Rightarrow> string \<Rightarrow> ('h, val) prog" where
  "module_main H module_name =
     (if module_name = ''internal_spaceship_creator'' then main_spaceship_creator H
      else if module_name = ''internal_input_setup'' then main_input_setup H
      else if module_name = ''internal_weapon_system'' then main_weapon_system H
      else raise AttributeError)"

text \<open>\<^verbatim>\<open>spec.loader.exec_module(module)\<close>: the loader reads and compiles the file (the host's
  part, which may raise), then the module body runs with \<^verbatim>\<open>__name__\<close> the module's name.\<close>

definition exec_module :: "'h api \<Rightarrow> val \<Rightarrow> val \<Rightarrow> string \<Rightarrow> ('h, unit) prog" where
  "exec_module H spec module_obj module_name =
     bnd (py_getattr H spec ''loader'') (\<lambda>loader.
     bnd (py_method H loader ''exec_module'' [module_obj]) (\<lambda>_.
     module_body H module_name))"

definition import_and_run_module :: "'h api \<Rightarrow> string \<Rightarrow> string \<Rightarrow> string \<Rightarrow> ('h, val) prog" where
  "import_and_run_module H SCRIPT_DIR module_name file_path =
     fn ''internal_complete_setup.import_and_run_module'' [VStr module_name, VStr file_path] (
     try_except
       (bnd (add_to_sys_path SCRIPT_DIR) (\<lambda>_.
        bnd (log_setup [T ''Importing module: '', T module_name]) (\<lambda>_.
        bnd (call H ''importlib.util.spec_from_file_location''
               [VStr module_name, VStr file_path]) (\<lambda>spec.
        if \<not> truthy spec then
          bnd (log_setup [T ''Could not find module spec for '', T file_path]) (\<lambda>_.
          ret (VBool False))
        else
        bnd (call H ''importlib.util.module_from_spec'' [spec]) (\<lambda>module_obj.
        if \<not> truthy module_obj then
          bnd (log_setup [T ''Could not create module from spec for '', T file_path]) (\<lambda>_.
          ret (VBool False))
        else
        bnd (exec_module H spec module_obj module_name) (\<lambda>_.
        if has_main module_name then
          bnd (log_setup [T ''Running main() from '', T module_name]) (\<lambda>_.
          bnd (module_main H module_name) (\<lambda>_.
          bnd (log_setup [T ''Completed '', T module_name]) (\<lambda>_.
          ret (VBool True))))
        else
          bnd (log_setup [T ''Module '', T module_name, T '' does not have a main() function''])
            (\<lambda>_.
          ret (VBool False))))))))
       (\<lambda>e. bnd (log_setup [T ''Error loading or running module '', T module_name, T '': '',
                              X e]) (\<lambda>_.
             ret (VBool False))))"

definition scripts :: "(string \<times> string) list" where
  "scripts =
     [(''internal_spaceship_creator'', ''internal_spaceship_creator.py''),
      (''internal_input_setup'', ''internal_input_setup.py''),
      (''internal_weapon_system'', ''internal_weapon_system.py'')]"

text \<open>The two pictographs that open log lines of \<^verbatim>\<open>main\<close>, as their UTF-8 bytes
  (U+26A0 U+FE0F and U+2705).\<close>

definition warning_sign :: string where
  "warning_sign = [CHR 0xE2, CHR 0x9A, CHR 0xA0, CHR 0xEF, CHR 0xB8, CHR 0x8F]"

definition check_mark :: string where
  "check_mark = [CHR 0xE2, CHR 0x9C, CHR 0x85]"

definition main_complete_setup :: "'h api \<Rightarrow> string \<Rightarrow> ('h, val) prog" where
  "main_complete_setup H SCRIPT_DIR =
     fn ''internal_complete_setup.main'' [] (
     bnd (log_setup [T ''Starting complete Space Dogfight setup process...'']) (\<lambda>_.
     bnd (for_each (\<lambda>(name, file).
            bnd (log_setup [T ''Running script: '', T name]) (\<lambda>_.
            bnd (import_and_run_module H SCRIPT_DIR name (os_path_join SCRIPT_DIR file))
              (\<lambda>success.
            if \<not> truthy success then
              log_setup [T (warning_sign @ '' Failed to run script: ''), T name]
            else ret ())))
          scripts) (\<lambda>_.
     bnd (block [log_setup [T (check_mark @ '' Space Dogfight setup process completed!'')],
                 log_setup [T ''Open the BP_Spaceship asset to verify all components were created correctly''],
                 log_setup [T ''Some manual setup may be required - see README.md for details'']])
       (\<lambda>_.
     ret VNone))))"

definition module_internal_complete_setup ::
  "'h api \<Rightarrow> string \<Rightarrow> string \<Rightarrow> ('h, unit) prog" where
  "module_internal_complete_setup H SCRIPT_DIR dunder_name =
     (if dunder_name = ''__main__'' \<or> True then
        bnd (main_complete_setup H SCRIPT_DIR) (\<lambda>_. ret ())
      else ret ())"

section \<open>Observing a run\<close>

definition result :: "('h, 'a) prog \<Rightarrow> 'h world \<Rightarrow> exn + 'a" where
  "result m s = fst (m s)"

definition events :: "('h, 'a) prog \<Rightarrow> 'h world \<Rightarrow> event list" where
  "events m s = snd (snd (m s))"

definition state_after :: "('h, 'a) prog \<Rightarrow> 'h world \<Rightarrow> 'h world" where
  "state_after m s = fst (snd (m s))"

definition initial :: "'h \<Rightarrow> 'h world" where
  "initial h = \<lparr>host = h, sys_path = []\<rparr>"

text \<open>The host calls of a trace with one of the given names, as (name, arguments), in order.\<close>

fun call_of :: "event \<Rightarrow> (string \<times> val list) option" where
  "call_of (Host name args r) = Some (name, args)"
| "call_of _ = None"

definition calls_named :: "string list \<Rightarrow> event list \<Rightarrow> (string \<times> val list) list" where
  "calls_named names t = filter (\<lambda>c. fst c \<in> set names) (List.map_filter call_of t)"

definition not_call_named :: "string list \<Rightarrow> event \<Rightarrow> bool" where
  "not_call_named ns e = (case e of Host n a r \<Rightarrow> n \<notin> set ns | _ \<Rightarrow> True)"

text \<open>Every event of every run of \<open>m\<close> satisfies \<open>P\<close>.\<close>

definition emits :: "(event \<Rightarrow> bool) \<Rightarrow> ('h, 'a) prog \<Rightarrow> bool" where
  "emits P m = (\<forall>s. list_all P (events m s))"

definition input_writes :: "string list" where
  "input_writes = [''add_action_mapping'', ''add_axis_mapping'', ''save_config_file'']"

section \<open>Example hosts\<close>

text \<open>A host that hands out objects, has one stale binding for \<^verbatim>\<open>Boost\<close>, and answers
  \<^verbatim>\<open>None\<close> to everything else.\<close>

definition plain_host :: "unit api" where
  "plain_host h name args =
     (if name = ''unreal.get_default_object'' then (Returns (VObj 0), h)
      else if name = ''unreal.get_editor_subsystem'' then (Returns (VObj 1), h)
      else if name = ''get_action_mappings'' then
        (Returns (VList [VActionMapping (VStr ''Boost'') (VEnum ''Key.B'')]), h)
      else if name = ''get_axis_mappings'' then (Returns (VList []), h)
      else (Returns VNone, h))"

definition owned_by :: "string list \<Rightarrow> string list \<Rightarrow> event \<Rightarrow> bool" where
  "owned_by fns prefixes e =
     (case e of
        Enter n a \<Rightarrow> n \<in> set fns
      | Leave n r \<Rightarrow> n \<in> set fns
      | Host n a r \<Rightarrow> True
      | Log m \<Rightarrow> (case m of T p # rest \<Rightarrow> p \<in> set prefixes | _ \<Rightarrow> False))"



definition input_fns :: "string list" where
  "input_fns = [''internal_input_setup.setup_input_mappings'', ''internal_input_setup.main'']"

definition script_prefixes :: "string list" where
  "script_prefixes = [''[SPACESHIP CREATOR] '', ''[INPUT SETUP] '', ''[WEAPON SYSTEM] '']"

definition returns :: "('a \<Rightarrow> bool) \<Rightarrow> ('h, 'a) prog \<Rightarrow> bool" where
  "returns R m = (\<forall>s. case result m s of Inl e \<Rightarrow> True | Inr x \<Rightarrow> R x)"

definition never_raises :: "('h, 'a) prog \<Rightarrow> bool" where
  "never_raises m = (\<forall>s. case result m s of Inl e \<Rightarrow> False | Inr x \<Rightarrow> True)"

definition is_bool :: "val \<Rightarrow> bool" where
  "is_bool v = (case v of VBool b \<Rightarrow> True | _ \<Rightarrow> False)"

(* weapon emits *)

definition no_asset_host :: "unit api" where
  "no_asset_host h name args =
     (if name = ''EditorAssetLibrary.does_directory_exist'' then (Returns (VBool True), h)
      else if name = ''EditorAssetLibrary.does_asset_exist'' then (Returns (VBool False), h)
      else if name \<in> set [''unreal.BlueprintFactory'', ''AssetToolsHelpers.get_asset_tools'',
                              ''importlib.util.spec_from_file_location'',
                              ''importlib.util.module_from_spec'', ''getattr''] then
        (Returns (VObj 1), h)
      else (Returns VNone, h))"


definition other_than :: "event \<Rightarrow> event \<Rightarrow> bool" where
  "other_than x e = (e \<noteq> x)"


definition hosts_named :: "string list \<Rightarrow> event list \<Rightarrow> event list" where
  "hosts_named names t = filter (\<lambda>e. case e of Host n a r \<Rightarrow> n \<in> set names | _ \<Rightarrow> False) t"



definition about :: "string list \<Rightarrow> event \<Rightarrow> bool" where
  "about fns e = (case e of Enter n a \<Rightarrow> n \<in> set fns | Leave n r \<Rightarrow> n \<in> set fns | _ \<Rightarrow> False)"

definition view :: "string list \<Rightarrow> event list \<Rightarrow> event list" where
  "view fns t = filter (about fns) t"

definition main_texts :: "string list" where
  "main_texts =
     [''Starting complete Space Dogfight setup process...'',
      ''Running script: '',
      warning_sign @ '' Failed to run script: '',
      check_mark @ '' Space Dogfight setup process completed!'',
      ''Open the BP_Spaceship asset to verify all components were created correctly'',
      ''Some manual setup may be required - see README.md for details'']"

definition main_line :: "event \<Rightarrow> bool" where
  "main_line e =
     (case e of Log (T p # T x # rest) \<Rightarrow> p = ''[SETUP] '' \<and> x \<in> set main_texts | _ \<Rightarrow> False)"

definition inner :: "event \<Rightarrow> bool" where
  "inner e = (\<not> about [''internal_complete_setup.import_and_run_module'',
                       ''internal_complete_setup.main''] e \<and> \<not> main_line e)"


definition spaceship_steps :: "string list" where
  "spaceship_steps =
     [''internal_spaceship_creator.create_spaceship_blueprint'',
      ''internal_spaceship_creator.add_components_to_blueprint'',
      ''internal_spaceship_creator.add_blueprint_variables'',
      ''internal_spaceship_creator.spawn_test_instance'']"

definition apart_from :: "string list \<Rightarrow> event \<Rightarrow> bool" where
  "apart_from fns e = (\<not> about fns e)"

definition main_view :: "event list \<Rightarrow> event list" where
  "main_view t =
     filter (\<lambda>e. about [''internal_complete_setup.import_and_run_module''] e \<or> main_line e) t"

section \<open>Basic facts\<close>

subsection \<open>What a run was made of\<close>

lemma run_eq: "m s = (result m s, state_after m s, events m s)"
  by (simp add: result_def state_after_def events_def)

lemma ret_D: "ret x s = (r, s', t) \<Longrightarrow> r = Inr x \<and> s' = s \<and> t = []"
  by (auto simp: ret_def)

lemma emit_D: "emit ev s = (r, s', t) \<Longrightarrow> r = Inr () \<and> s' = s \<and> t = [ev]"
  by (auto simp: emit_def)

lemma bnd_Inr_D:
  "bnd m f s = (Inr y, s', t) \<Longrightarrow>
     \<exists>x s1 t1 t2. m s = (Inr x, s1, t1) \<and> f x s1 = (Inr y, s', t2) \<and> t = t1 @ t2"
  by (auto simp: bnd_def split: prod.splits sum.splits)

lemma bnd_Inr_E:
  assumes "bnd m f s = (Inr y, s', t)"
  obtains x s1 t1 t2 where "m s = (Inr x, s1, t1)" and "f x s1 = (Inr y, s', t2)" and "t = t1 @ t2"
  using bnd_Inr_D[OF assms] by blast

lemma try_Inr_D:
  "try_except m h s = (Inr y, s', t) \<Longrightarrow>
     m s = (Inr y, s', t) \<or>
     (\<exists>e s1 t1 t2. m s = (Inl e, s1, t1) \<and> h e s1 = (Inr y, s', t2) \<and> t = t1 @ t2)"
  by (auto simp: try_except_def split: prod.splits sum.splits)

lemma try_Inr_E:
  assumes "try_except m h s = (Inr y, s', t)"
  obtains "m s = (Inr y, s', t)"
  | e s1 t1 t2 where "m s = (Inl e, s1, t1)" and "h e s1 = (Inr y, s', t2)" and "t = t1 @ t2"
  using try_Inr_D[OF assms] by blast

lemma fn_D:
  "fn name args body s = (r, s', t) \<Longrightarrow>
     \<exists>t1. body s = (r, s', t1) \<and> t = Enter name args # t1 @ [Leave name r]"
  by (auto simp: fn_def split: prod.splits)

lemma fn_E:
  assumes "fn name args body s = (r, s', t)"
  obtains t1 where "body s = (r, s', t1)" and "t = Enter name args # t1 @ [Leave name r]"
  using fn_D[OF assms] by blast

lemma call_D: "call H name args s = (r, s', t) \<Longrightarrow> \<exists>rep. t = [Host name args rep] \<and> r = outcome rep"
  by (auto simp: call_def split: prod.splits)

lemma call_Inr_D: "call H name args s = (Inr v, s', t) \<Longrightarrow> t = [Host name args (Returns v)]"
  by (auto simp: call_def outcome_def split: prod.splits reply.splits)

lemma py_method_Inr_D:
  "py_method H recv name args s = (Inr v, s', t) \<Longrightarrow> t = [Host name (recv # args) (Returns v)]"
  by (auto simp: py_method_def raise_def dest: call_Inr_D split: if_splits)

lemma log_input_D:
  "log_input msg s = (r, s', t) \<Longrightarrow> r = Inr () \<and> s' = s \<and> t = [Log (T ''[INPUT SETUP] '' # msg)]"
  by (auto simp: log_input_def emit_def)

subsection \<open>Invariants of the events\<close>

lemma emitsD: "emits P m \<Longrightarrow> m s = (r, s1, t) \<Longrightarrow> list_all P t"
  unfolding emits_def events_def by (drule spec[of _ s]) simp

lemma emits_ret: "emits P (ret x)"
  by (simp add: emits_def events_def ret_def)

lemma emits_raise: "emits P (raise e)"
  by (simp add: emits_def events_def raise_def)

lemma emits_emit: "P ev \<Longrightarrow> emits P (emit ev)"
  by (simp add: emits_def events_def emit_def)

lemma emits_call: "(\<And>r. P (Host name args r)) \<Longrightarrow> emits P (call H name args)"
  by (simp add: emits_def events_def call_def split: prod.splits)

lemma emits_bnd: "emits P m \<Longrightarrow> (\<And>x. emits P (f x)) \<Longrightarrow> emits P (bnd m f)"
  by (auto simp: emits_def events_def bnd_def split: prod.splits sum.splits)
     (metis snd_conv)+

lemma emits_try: "emits P m \<Longrightarrow> (\<And>e. emits P (h e)) \<Longrightarrow> emits P (try_except m h)"
  by (auto simp: emits_def events_def try_except_def split: prod.splits sum.splits)
     (metis snd_conv)+

lemma emits_fn:
  "P (Enter name args) \<Longrightarrow> (\<And>r. P (Leave name r)) \<Longrightarrow> emits P body \<Longrightarrow> emits P (fn name args body)"
  by (auto simp: emits_def events_def fn_def split: prod.splits) (metis snd_conv)

lemma emits_if: "(c \<Longrightarrow> emits P a) \<Longrightarrow> (\<not> c \<Longrightarrow> emits P b) \<Longrightarrow> emits P (if c then a else b)"
  by simp

lemma emits_prod: "(\<And>a b. emits P (f a b)) \<Longrightarrow> emits P (case_prod f p)"
  by (cases p) simp

lemma emits_for_each: "(\<And>x. emits P (body x)) \<Longrightarrow> emits P (for_each body xs)"
  by (induction xs) (auto intro: emits_ret emits_bnd)

lemma emits_py_iter: "emits P (py_iter v)"
  by (cases v) (simp_all add: emits_ret emits_raise)

lemma emits_for_in: "(\<And>x. emits P (body x)) \<Longrightarrow> emits P (for_in v body)"
  by (simp add: for_in_def emits_bnd emits_py_iter emits_for_each)

lemma emits_py_method:
  "(\<And>r. P (Host name (recv # args) r)) \<Longrightarrow> emits P (py_method H recv name args)"
  by (simp add: py_method_def emits_raise emits_call)

lemma emits_py_getattr:
  "(\<And>r. P (Host ''getattr'' [v, VStr name] r)) \<Longrightarrow> emits P (py_getattr H v name)"
  by (cases v) (simp_all add: emits_ret emits_raise emits_call)

lemma emits_log_input: "(\<And>m. P (Log m)) \<Longrightarrow> emits P (log_input message)"
  by (simp add: log_input_def emits_emit)

lemmas emits_intros = emits_ret emits_raise emits_bnd emits_try emits_if emits_prod emits_for_each
  emits_for_in emits_py_method emits_py_getattr emits_log_input emits_call emits_fn

subsection \<open>Projections\<close>

lemma calls_named_append [simp]:
  "calls_named ns (t @ u) = calls_named ns t @ calls_named ns u"
  by (simp add: calls_named_def map_filter_def)

lemma calls_named_Nil [simp]: "calls_named ns [] = []"
  by (simp add: calls_named_def map_filter_def)

lemma calls_named_Cons [simp]:
  "calls_named ns (e # t) =
     (case e of Host n a r \<Rightarrow> if n \<in> set ns then [(n, a)] else [] | _ \<Rightarrow> []) @ calls_named ns t"
  by (simp add: calls_named_def map_filter_def split: event.splits)

lemma calls_named_none: "list_all (not_call_named ns) t \<Longrightarrow> calls_named ns t = []"
  by (induction t) (auto simp: not_call_named_def split: event.splits)

lemma for_each_calls:
  assumes "for_each body xs s = (Inr u, s', t)"
    and "\<And>x s u s' t. body x s = (Inr u, s', t) \<Longrightarrow> calls_named ns t = g x"
  shows "calls_named ns t = concat (map g xs)"
  using assms(1)
proof (induction xs arbitrary: s t)
  case Nil
  then show ?case by (auto dest: ret_D)
next
  case (Cons x xs)
  from Cons.prems obtain u1 s1 t1 t2 where 1: "body x s = (Inr u1, s1, t1)"
    and 2: "for_each body xs s1 = (Inr u, s', t2)" and "t = t1 @ t2"
    by (auto elim: bnd_Inr_E)
  with assms(2)[OF 1] Cons.IH[OF 2] show ?case by auto
qed

subsection \<open>Evaluating a run on a given host\<close>

lemmas run_simps = ret_def raise_def bnd_def try_except_def emit_def fn_def outcome_def call_def
  for_in_def py_method_def block_def stmt_def set_editor_property_def result_def events_def state_after_def
  initial_def

section \<open>C5: the bindings added by a successful run\<close>

lemma add_actions_calls:
  assumes "for_each (\<lambda>(name, key).
     bnd (py_method H obj ''add_action_mapping'' [VActionMapping (VStr name) key]) (\<lambda>_.
     log_input [T ''Added action mapping: '', T name, T '' -> '', V key])) xs s = (Inr u, s', t)"
  shows "calls_named input_writes t =
     map (\<lambda>(name, key). (''add_action_mapping'', [obj, VActionMapping (VStr name) key])) xs"
proof -
  have "calls_named input_writes t = concat (map (\<lambda>(name, key). [(''add_action_mapping'', [obj, VActionMapping (VStr name) key])]) xs)"
    by (rule for_each_calls[OF assms])
       (auto simp: input_writes_def elim!: bnd_Inr_E dest!: py_method_Inr_D log_input_D)
  also have "\<dots> = map (\<lambda>(name, key). (''add_action_mapping'', [obj, VActionMapping (VStr name) key])) xs"
    by (induction xs) auto
  finally show ?thesis .
qed

lemma add_axes_calls:
  assumes "for_each (\<lambda>(name, key, scale).
     bnd (py_method H obj ''add_axis_mapping'' [VAxisMapping (VStr name) key (VFloat scale)]) (\<lambda>_.
     log_input [T ''Added axis mapping: '', T name, T '' -> '', V key,
                T '' (scale: '', V (VFloat scale), T '')''])) xs s = (Inr u, s', t)"
  shows "calls_named input_writes t =
     map (\<lambda>(name, key, scale). (''add_axis_mapping'', [obj, VAxisMapping (VStr name) key (VFloat scale)])) xs"
proof -
  have "calls_named input_writes t = concat (map (\<lambda>(name, key, scale). [(''add_axis_mapping'', [obj, VAxisMapping (VStr name) key (VFloat scale)])]) xs)"
    by (rule for_each_calls[OF assms])
       (auto simp: input_writes_def elim!: bnd_Inr_E dest!: py_method_Inr_D log_input_D)
  also have "\<dots> = map (\<lambda>(name, key, scale). (''add_axis_mapping'', [obj, VAxisMapping (VStr name) key (VFloat scale)])) xs"
    by (induction xs) auto
  finally show ?thesis .
qed

lemma rm_actions_quiet:
  assumes "for_each (\<lambda>(name, key).
               for_in existing (\<lambda>ex.
                 bnd (py_getattr H ex ''action_name'') (\<lambda>n.
                 if n = VStr name then
                   bnd (py_method H obj ''remove_action_mapping'' [ex])
                     (\<lambda>_. ret ())
                 else ret ()))) xs s = (r, s', t)"
  shows "calls_named input_writes t = []"
proof -
  have "emits (not_call_named input_writes) (for_each (\<lambda>(name, key).
               for_in existing (\<lambda>ex.
                 bnd (py_getattr H ex ''action_name'') (\<lambda>n.
                 if n = VStr name then
                   bnd (py_method H obj ''remove_action_mapping'' [ex])
                     (\<lambda>_. ret ())
                 else ret ()))) xs)"
    by (intro emits_intros) (simp_all add: not_call_named_def input_writes_def)
  from emitsD[OF this assms] show ?thesis by (rule calls_named_none)
qed

lemma rm_axes_quiet:
  assumes "for_each (\<lambda>(name, key, scale).
               for_in existing (\<lambda>ex.
                 bnd (py_getattr H ex ''axis_name'') (\<lambda>n.
                 if n = VStr name then
                   bnd (py_method H obj ''remove_axis_mapping'' [ex])
                     (\<lambda>_. ret ())
                 else ret ()))) xs s = (r, s', t)"
  shows "calls_named input_writes t = []"
proof -
  have "emits (not_call_named input_writes) (for_each (\<lambda>(name, key, scale).
               for_in existing (\<lambda>ex.
                 bnd (py_getattr H ex ''axis_name'') (\<lambda>n.
                 if n = VStr name then
                   bnd (py_method H obj ''remove_axis_mapping'' [ex])
                     (\<lambda>_. ret ())
                 else ret ()))) xs)"
    by (intro emits_intros) (simp_all add: not_call_named_def input_writes_def)
  from emitsD[OF this assms] show ?thesis by (rule calls_named_none)
qed

lemma setup_input_mappings_writes:
  assumes "setup_input_mappings H s = (Inr (VBool True), s', t)"
  shows "\<exists>obj ed. calls_named input_writes t =
     map (\<lambda>(name, key). (''add_action_mapping'', [obj, VActionMapping (VStr name) key])) action_mappings
   @ map (\<lambda>(name, key, scale). (''add_axis_mapping'', [obj, VAxisMapping (VStr name) key (VFloat scale)])) axis_mappings
   @ [(''save_config_file'', [ed, obj])]"
  using assms unfolding setup_input_mappings_def
  apply (elim fn_E try_Inr_E bnd_Inr_E)
   apply (simp_all split: if_splits)
     apply (auto elim!: bnd_Inr_E dest!: ret_D log_input_D)[3]
  apply (drule rm_actions_quiet)
  apply (drule rm_axes_quiet)
  apply (drule add_actions_calls)
  apply (drule add_axes_calls)
  apply (auto simp: input_writes_def dest!: call_Inr_D py_method_Inr_D log_input_D ret_D)
  done

text \<open>
  C5.  When \<^verbatim>\<open>setup_input_mappings\<close> returns \<^verbatim>\<open>True\<close>, the calls it made to
  \<^verbatim>\<open>add_action_mapping\<close>, \<^verbatim>\<open>add_axis_mapping\<close> and \<^verbatim>\<open>save_config_file\<close> are, in this order
  and with nothing else among them: the four action mappings of the table (Boost to E,
  Brake to R, PrimaryFire to the left mouse button, SecondaryFire to the right one), once
  each, the nine axis mappings of the table with their keys and scales, once each, and
  then the saving of the configuration; all on the one settings object.
\<close>

theorem setup_input_mappings_adds_tables_once:
  assumes "result (setup_input_mappings H) s = Inr (VBool True)"
  shows "\<exists>obj ed. calls_named [''add_action_mapping'', ''add_axis_mapping'', ''save_config_file'']
           (events (setup_input_mappings H) s) =
     [(''add_action_mapping'', [obj, VActionMapping (VStr ''Boost'') (VEnum ''Key.E'')]),
      (''add_action_mapping'', [obj, VActionMapping (VStr ''Brake'') (VEnum ''Key.R'')]),
      (''add_action_mapping'', [obj, VActionMapping (VStr ''PrimaryFire'') (VEnum ''Key.LEFT_MOUSE_BUTTON'')]),
      (''add_action_mapping'', [obj, VActionMapping (VStr ''SecondaryFire'') (VEnum ''Key.RIGHT_MOUSE_BUTTON'')]),
      (''add_axis_mapping'', [obj, VAxisMapping (VStr ''MoveForward'') (VEnum ''Key.W'') (VFloat 1.0)]),
      (''add_axis_mapping'', [obj, VAxisMapping (VStr ''MoveForward'') (VEnum ''Key.S'') (VFloat (-1.0))]),
      (''add_axis_mapping'', [obj, VAxisMapping (VStr ''MoveRight'') (VEnum ''Key.D'') (VFloat 1.0)]),
      (''add_axis_mapping'', [obj, VAxisMapping (VStr ''MoveRight'') (VEnum ''Key.A'') (VFloat (-1.0))]),
      (''add_axis_mapping'', [obj, VAxisMapping (VStr ''MoveUp'') (VEnum ''Key.Q'') (VFloat 1.0)]),
      (''add_axis_mapping'', [obj, VAxisMapping (VStr ''MoveUp'') (VEnum ''Key.Z'') (VFloat (-1.0))]),
      (''add_axis_mapping'', [obj, VAxisMapping (VStr ''Turn'') (VEnum ''Key.MOUSE_X'') (VFloat 1.0)]),
      (''add_axis_mapping'', [obj, VAxisMapping (VStr ''LookUp'') (VEnum ''Key.MOUSE_Y'') (VFloat (-1.0))]),
      (''add_axis_mapping'', [obj, VAxisMapping (VStr ''CameraZoom'') (VEnum ''Key.MOUSE_WHEEL_AXIS'') (VFloat 1.0)]),
      (''save_config_file'', [ed, obj])]"
proof -
  from assms have "setup_input_mappings H s =
      (Inr (VBool True), state_after (setup_input_mappings H) s, events (setup_input_mappings H) s)"
    using run_eq[of "setup_input_mappings H" s] by simp
  from setup_input_mappings_writes[OF this] show ?thesis
    by (simp add: action_mappings_def axis_mappings_def input_writes_def)
qed

theorem setup_input_mappings_adds_tables_once_witness:
  "result (setup_input_mappings plain_host) (initial ()) = Inr (VBool True) \<and>
   calls_named [''add_action_mapping'', ''save_config_file'']
     (events (setup_input_mappings plain_host) (initial ())) =
     [(''add_action_mapping'', [VObj 0, VActionMapping (VStr ''Boost'') (VEnum ''Key.E'')]),
      (''add_action_mapping'', [VObj 0, VActionMapping (VStr ''Brake'') (VEnum ''Key.R'')]),
      (''add_action_mapping'',
        [VObj 0, VActionMapping (VStr ''PrimaryFire'') (VEnum ''Key.LEFT_MOUSE_BUTTON'')]),
      (''add_action_mapping'',
        [VObj 0, VActionMapping (VStr ''SecondaryFire'') (VEnum ''Key.RIGHT_MOUSE_BUTTON'')]),
      (''save_config_file'', [VObj 1, VObj 0])]"
proof -
  have r: "result (setup_input_mappings plain_host) (initial ()) = Inr (VBool True)"
    by (simp add: setup_input_mappings_def run_simps log_input_def action_mappings_def
        axis_mappings_def plain_host_def)
  from setup_input_mappings_adds_tables_once[OF r] obtain obj ed where
    c: "calls_named [''add_action_mapping'', ''add_axis_mapping'', ''save_config_file'']
           (events (setup_input_mappings plain_host) (initial ())) =
     [(''add_action_mapping'', [obj, VActionMapping (VStr ''Boost'') (VEnum ''Key.E'')]),
      (''add_action_mapping'', [obj, VActionMapping (VStr ''Brake'') (VEnum ''Key.R'')]),
      (''add_action_mapping'', [obj, VActionMapping (VStr ''PrimaryFire'') (VEnum ''Key.LEFT_MOUSE_BUTTON'')]),
      (''add_action_mapping'', [obj, VActionMapping (VStr ''SecondaryFire'') (VEnum ''Key.RIGHT_MOUSE_BUTTON'')]),
      (''add_axis_mapping'', [obj, VAxisMapping (VStr ''MoveForward'') (VEnum ''Key.W'') (VFloat 1.0)]),
      (''add_axis_mapping'', [obj, VAxisMapping (VStr ''MoveForward'') (VEnum ''Key.S'') (VFloat (-1.0))]),
      (''add_axis_mapping'', [obj, VAxisMapping (VStr ''MoveRight'') (VEnum ''Key.D'') (VFloat 1.0)]),
      (''add_axis_mapping'', [obj, VAxisMapping (VStr ''MoveRight'') (VEnum ''Key.A'') (VFloat (-1.0))]),
      (''add_axis_mapping'', [obj, VAxisMapping (VStr ''MoveUp'') (VEnum ''Key.Q'') (VFloat 1.0)]),
      (''add_axis_mapping'', [obj, VAxisMapping (VStr ''MoveUp'') (VEnum ''Key.Z'') (VFloat (-1.0))]),
      (''add_axis_mapping'', [obj, VAxisMapping (VStr ''Turn'') (VEnum ''Key.MOUSE_X'') (VFloat 1.0)]),
      (''add_axis_mapping'', [obj, VAxisMapping (VStr ''LookUp'') (VEnum ''Key.MOUSE_Y'') (VFloat (-1.0))]),
      (''add_axis_mapping'', [obj, VAxisMapping (VStr ''CameraZoom'') (VEnum ''Key.MOUSE_WHEEL_AXIS'') (VFloat 1.0)]),
      (''save_config_file'', [ed, obj])]"
    by blast
  have e: "calls_named [''add_action_mapping'', ''save_config_file'']
       (events (setup_input_mappings plain_host) (initial ())) =
     filter (\<lambda>c. fst c \<in> set [''add_action_mapping'', ''save_config_file''])
       (calls_named [''add_action_mapping'', ''add_axis_mapping'', ''save_config_file'']
          (events (setup_input_mappings plain_host) (initial ())))"
    by (simp add: calls_named_def) (rule filter_cong, auto)
  have o: "calls_named [''save_config_file'']
       (events (setup_input_mappings plain_host) (initial ())) = [(''save_config_file'', [VObj 1, VObj 0])]"
    by (simp add: setup_input_mappings_def run_simps log_input_def action_mappings_def
        axis_mappings_def plain_host_def)
  have "calls_named [''save_config_file'']
       (events (setup_input_mappings plain_host) (initial ())) =
     filter (\<lambda>c. fst c \<in> set [''save_config_file''])
       (calls_named [''add_action_mapping'', ''add_axis_mapping'', ''save_config_file'']
          (events (setup_input_mappings plain_host) (initial ())))"
    by (simp add: calls_named_def) (rule filter_cong, auto)
  with o c have "obj = VObj 0" "ed = VObj 1" by simp_all
  with r e c show ?thesis by simp
qed

lemma emits_mono: "emits P m \<Longrightarrow> (\<And>e. P e \<Longrightarrow> Q e) \<Longrightarrow> emits Q m"
  unfolding emits_def by (auto simp: list_all_iff)



lemma emits_log_spaceship:
  "P (Log (T ''[SPACESHIP CREATOR] '' # message)) \<Longrightarrow> emits P (log_spaceship message)"
  by (simp add: log_spaceship_def emits_emit)

lemma emits_log_weapon:
  "P (Log (T ''[WEAPON SYSTEM] '' # message)) \<Longrightarrow> emits P (log_weapon message)"
  by (simp add: log_weapon_def emits_emit)

lemma emits_log_setup:
  "P (Log (T ''[SETUP] '' # message)) \<Longrightarrow> emits P (log_setup message)"
  by (simp add: log_setup_def emits_emit)

lemma emits_log_input': "P (Log (T ''[INPUT SETUP] '' # message)) \<Longrightarrow> emits P (log_input message)"
  by (simp add: log_input_def emits_emit)

lemma emits_block_Nil: "emits P (block [])"
  by (simp add: block_def emits_ret)

lemma emits_block_Cons: "emits P x \<Longrightarrow> emits P (block xs) \<Longrightarrow> emits P (block (x # xs))"
  by (simp add: block_def emits_bnd)

lemma emits_stmt: "emits P m \<Longrightarrow> emits P (stmt m)"
  by (simp add: stmt_def emits_bnd emits_ret)

lemma emits_set_editor_property:
  "(\<And>r. P (Host ''set_editor_property'' [obj, VStr name, v] r)) \<Longrightarrow>
     emits P (set_editor_property H obj name v)"
  by (simp add: set_editor_property_def emits_bnd emits_ret emits_py_method)

lemma emits_add_to_sys_path: "emits P (add_to_sys_path d)"
  by (simp add: emits_def events_def add_to_sys_path_def)

lemma emits_find_component:
  "(\<And>n a r. P (Host n a r)) \<Longrightarrow> emits P (find_component H name xs)"
  by (induction xs) (auto intro!: emits_ret emits_bnd emits_py_method)

lemma emits_remove_test_instance:
  "(\<And>n a r. P (Host n a r)) \<Longrightarrow> (\<And>m. P (Log (T ''[SPACESHIP CREATOR] '' # m))) \<Longrightarrow>
     emits P (remove_test_instance H xs)"
  by (induction xs) (auto intro!: emits_ret emits_bnd emits_py_method emits_log_spaceship emits_call)

lemmas emits_rules = emits_ret emits_raise emits_bnd emits_try emits_if emits_prod emits_for_each
  emits_for_in emits_py_method emits_py_getattr emits_call emits_fn emits_py_iter
  emits_log_spaceship emits_log_weapon emits_log_setup emits_log_input'
  emits_block_Nil emits_block_Cons emits_stmt emits_set_editor_property emits_add_to_sys_path
  emits_find_component emits_remove_test_instance

lemma owned_simps [simp]:
  "owned_by fns ps (Enter n a) = (n \<in> set fns)"
  "owned_by fns ps (Leave n r) = (n \<in> set fns)"
  "owned_by fns ps (Host n a rep)"
  "owned_by fns ps (Log (T p # rest)) = (p \<in> set ps)"
  by (simp_all add: owned_by_def)
















lemma never_raises_ret: "never_raises (ret x)"
  by (simp add: never_raises_def result_def ret_def)

lemma never_raises_emit: "never_raises (emit ev)"
  by (simp add: never_raises_def result_def emit_def)

lemma never_raises_bnd: "never_raises m \<Longrightarrow> (\<And>x. never_raises (f x)) \<Longrightarrow> never_raises (bnd m f)"
  unfolding never_raises_def result_def bnd_def
  by (auto split: prod.splits sum.splits) (metis fst_conv sum.simps(5,6))+

lemma never_raises_try: "(\<And>e. never_raises (h e)) \<Longrightarrow> never_raises (try_except m h)"
  unfolding never_raises_def result_def try_except_def
  by (auto split: prod.splits sum.splits) (metis fst_conv sum.simps(5))

lemma never_raises_fn: "never_raises body \<Longrightarrow> never_raises (fn name args body)"
  unfolding never_raises_def result_def fn_def
  by (auto split: prod.splits sum.splits) (metis fst_conv sum.simps(5))

lemma never_raises_if:
  "(c \<Longrightarrow> never_raises a) \<Longrightarrow> (\<not> c \<Longrightarrow> never_raises b) \<Longrightarrow> never_raises (if c then a else b)"
  by simp

lemma never_raises_prod: "(\<And>a b. never_raises (f a b)) \<Longrightarrow> never_raises (case_prod f p)"
  by (cases p) simp

lemma never_raises_for_each: "(\<And>x. never_raises (body x)) \<Longrightarrow> never_raises (for_each body xs)"
  by (induction xs) (auto intro: never_raises_ret never_raises_bnd)

lemma never_raises_block_Nil: "never_raises (block [])"
  by (simp add: block_def never_raises_ret)

lemma never_raises_block_Cons:
  "never_raises x \<Longrightarrow> never_raises (block xs) \<Longrightarrow> never_raises (block (x # xs))"
  by (simp add: block_def never_raises_bnd)

lemma never_raises_logs:
  "never_raises (log_input m)" "never_raises (log_spaceship m)" "never_raises (log_weapon m)"
  "never_raises (log_setup m)"
  by (simp_all add: log_input_def log_spaceship_def log_weapon_def log_setup_def never_raises_emit)

lemmas never_raises_rules = never_raises_ret never_raises_emit never_raises_bnd never_raises_try
  never_raises_fn never_raises_if never_raises_prod never_raises_for_each never_raises_block_Nil
  never_raises_block_Cons never_raises_logs

lemma returns_ret: "R x \<Longrightarrow> returns R (ret x)"
  by (simp add: returns_def result_def ret_def)

lemma returns_raise: "returns R (raise e)"
  by (simp add: returns_def result_def raise_def)

lemma returns_bnd: "(\<And>x. returns R (f x)) \<Longrightarrow> returns R (bnd m f)"
  unfolding returns_def result_def bnd_def
  by (auto split: prod.splits sum.splits) (metis fst_conv sum.simps(6))

lemma returns_try: "returns R m \<Longrightarrow> (\<And>e. returns R (h e)) \<Longrightarrow> returns R (try_except m h)"
  unfolding returns_def result_def try_except_def
  by (auto split: prod.splits sum.splits) (metis fst_conv sum.simps(6))+

lemma returns_fn: "returns R body \<Longrightarrow> returns R (fn name args body)"
  unfolding returns_def result_def fn_def
  by (auto split: prod.splits sum.splits) (metis fst_conv sum.simps(6))

lemma returns_if: "(c \<Longrightarrow> returns R a) \<Longrightarrow> (\<not> c \<Longrightarrow> returns R b) \<Longrightarrow> returns R (if c then a else b)"
  by simp

lemmas returns_rules = returns_ret returns_raise returns_bnd returns_try returns_fn returns_if

lemma total:
  assumes "never_raises m" and "returns R m"
  shows "\<exists>x. result m s = Inr x \<and> R x"
proof (cases "result m s")
  case (Inl e)
  with assms(1) show ?thesis
    unfolding never_raises_def by (auto dest!: spec[of _ s])
next
  case (Inr x)
  with assms(2) show ?thesis
    unfolding returns_def by (auto dest!: spec[of _ s])
qed

lemma is_bool_simps [simp]: "is_bool (VBool b)"
  by (simp add: is_bool_def)

lemma is_boolE: "is_bool v \<Longrightarrow> \<exists>b. v = VBool b"
  by (cases v) (simp_all add: is_bool_def)


lemma bool_add_blueprint_variables: "\<exists>b. result (add_blueprint_variables H bp) s = Inr (VBool b)"
proof -
  have "never_raises (add_blueprint_variables H bp)"
    unfolding add_blueprint_variables_def by (intro never_raises_rules)
  moreover have "returns is_bool (add_blueprint_variables H bp)"
    unfolding add_blueprint_variables_def by (intro returns_rules) simp_all
  ultimately show ?thesis by (auto dest!: total[where s=s] is_boolE)
qed

lemma bool_spawn_test_instance: "\<exists>b. result (spawn_test_instance H) s = Inr (VBool b)"
proof -
  have "never_raises (spawn_test_instance H)"
    unfolding spawn_test_instance_def by (intro never_raises_rules)
  moreover have "returns is_bool (spawn_test_instance H)"
    unfolding spawn_test_instance_def by (intro returns_rules) simp_all
  ultimately show ?thesis by (auto dest!: total[where s=s] is_boolE)
qed





lemma returnsD: "returns R m \<Longrightarrow> m s = (Inr x, s1, t) \<Longrightarrow> R x"
  unfolding returns_def result_def by (drule spec[of _ s]) simp

lemma emits_bnd_returns:
  assumes "returns R m" and "emits P m" and "\<And>x. R x \<Longrightarrow> emits P (f x)"
  shows "emits P (bnd m f)"
  unfolding emits_def events_def
proof (intro allI)
  fix s
  obtain r s1 t1 where ms: "m s = (r, s1, t1)" by (cases "m s")
  have t1: "list_all P t1" by (rule emitsD[OF assms(2) ms])
  show "list_all P (snd (snd (bnd m f s)))"
  proof (cases r)
    case (Inl e)
    with ms t1 show ?thesis by (simp add: bnd_def)
  next
    case (Inr x)
    with ms have "R x" by (auto intro: returnsD[OF assms(1)])
    then have "emits P (f x)" by (rule assms(3))
    then have "list_all P (snd (snd (f x s1)))" by (simp add: emits_def events_def)
    with ms t1 Inr show ?thesis by (cases "f x s1") (simp add: bnd_def)
  qed
qed

lemma returns_ensure_directory_exists:
  "returns (\<lambda>v. v = VBool True) (ensure_directory_exists H path)"
  unfolding ensure_directory_exists_def by (intro returns_rules) simp_all

lemma returns_ensure_directory_exists_weapon:
  "returns (\<lambda>v. v = VBool True) (ensure_directory_exists_weapon H path)"
  unfolding ensure_directory_exists_weapon_def by (intro returns_rules) simp_all

lemma emits_other_than_owned:
  "emits (owned_by fns ps) m \<Longrightarrow> \<not> owned_by fns ps x \<Longrightarrow> emits (other_than x) m"
  by (erule emits_mono) (auto simp: other_than_def)

lemma ensure_directory_exists_other:
  "emits (other_than (Log [T ''[SPACESHIP CREATOR] '', T ''Failed to create blueprint directory'']))
     (ensure_directory_exists H path)"
  unfolding ensure_directory_exists_def by (intro emits_rules) (simp_all add: other_than_def)

lemma ensure_directory_exists_weapon_other:
  "emits (other_than (Log [T ''[WEAPON SYSTEM] '', T ''Failed to create weapons directory'']))
     (ensure_directory_exists_weapon H path)"
  unfolding ensure_directory_exists_weapon_def by (intro emits_rules) (simp_all add: other_than_def)

lemma dead_branch_spaceship:
  "emits (other_than (Log [T ''[SPACESHIP CREATOR] '', T ''Failed to create blueprint directory'']))
     (create_spaceship_blueprint H)"
  unfolding create_spaceship_blueprint_def
  apply (rule emits_fn)
    apply (simp add: other_than_def)
   apply (simp add: other_than_def)
  apply (rule emits_bnd_returns[OF returns_ensure_directory_exists])
   apply (rule ensure_directory_exists_other)
  apply simp
  apply (intro emits_rules)
  apply (simp_all add: other_than_def)
  done

lemma dead_branch_laser:
  "emits (other_than (Log [T ''[WEAPON SYSTEM] '', T ''Failed to create weapons directory'']))
     (create_laser_projectile_blueprint H)"
  unfolding create_laser_projectile_blueprint_def
  apply (rule emits_fn)
    apply (simp add: other_than_def)
   apply (simp add: other_than_def)
  apply (rule emits_bnd_returns[OF returns_ensure_directory_exists_weapon])
   apply (rule ensure_directory_exists_weapon_other)
  apply simp
  apply (intro emits_rules)
  apply (simp_all add: other_than_def)
  done

lemma dead_branch_missile:
  "emits (other_than (Log [T ''[WEAPON SYSTEM] '', T ''Failed to create weapons directory'']))
     (create_missile_projectile_blueprint H)"
  unfolding create_missile_projectile_blueprint_def
  apply (rule emits_fn)
    apply (simp add: other_than_def)
   apply (simp add: other_than_def)
  apply (rule emits_bnd_returns[OF returns_ensure_directory_exists_weapon])
   apply (rule ensure_directory_exists_weapon_other)
  apply simp
  apply (intro emits_rules)
  apply (simp_all add: other_than_def)
  done

lemma emits_notin: "emits (other_than x) m \<Longrightarrow> x \<notin> set (events m s)"
  unfolding emits_def other_than_def by (auto simp: list_all_iff)

lemma returns_result: "returns R m \<Longrightarrow> result m s = Inr v \<Longrightarrow> R v"
  unfolding returns_def by (drule spec[of _ s]) simp

section \<open>C9: the directory check cannot report failure\<close>

text \<open>
  C9.  Whenever \<^verbatim>\<open>ensure_directory_exists\<close> returns (in either script, for every path and
  every host, whether the directory was there or had to be made), it returns \<^verbatim>\<open>True\<close>; and
  in no run of the three functions that create a blueprint is the line that reports a
  failure to create the directory ever logged: that branch is dead.
\<close>

theorem ensure_directory_exists_always_true:
  "(result (ensure_directory_exists H path) s = Inr v \<longrightarrow> v = VBool True) \<and>
   (result (ensure_directory_exists_weapon H path) s = Inr v \<longrightarrow> v = VBool True) \<and>
   Log [T ''[SPACESHIP CREATOR] '', T ''Failed to create blueprint directory'']
     \<notin> set (events (create_spaceship_blueprint H) s) \<and>
   Log [T ''[WEAPON SYSTEM] '', T ''Failed to create weapons directory'']
     \<notin> set (events (create_laser_projectile_blueprint H) s) \<and>
   Log [T ''[WEAPON SYSTEM] '', T ''Failed to create weapons directory'']
     \<notin> set (events (create_missile_projectile_blueprint H) s)"
  using returns_result[OF returns_ensure_directory_exists]
    returns_result[OF returns_ensure_directory_exists_weapon]
    emits_notin[OF dead_branch_spaceship] emits_notin[OF dead_branch_laser]
    emits_notin[OF dead_branch_missile]
  by blast

theorem ensure_directory_exists_always_true_witness:
  "result (ensure_directory_exists plain_host ''/Game/SpaceDogfight/Blueprints'') (initial ())
     = Inr (VBool True) \<and>
   result (ensure_directory_exists_weapon no_asset_host ''/Game/SpaceDogfight/Weapons'') (initial ())
     = Inr (VBool True) \<and>
   Log [T ''[SPACESHIP CREATOR] '', T ''Failed to create blueprint directory'']
     \<notin> set (events (create_spaceship_blueprint no_asset_host) (initial ()))"
proof -
  have a: "\<exists>v. result (ensure_directory_exists plain_host ''/Game/SpaceDogfight/Blueprints'')
             (initial ()) = Inr v"
    by (simp add: ensure_directory_exists_def run_simps log_spaceship_def plain_host_def)
  have b: "\<exists>v. result (ensure_directory_exists_weapon no_asset_host ''/Game/SpaceDogfight/Weapons'')
             (initial ()) = Inr v"
    by (simp add: ensure_directory_exists_weapon_def run_simps log_weapon_def no_asset_host_def)
  from a b
    ensure_directory_exists_always_true[of plain_host "''/Game/SpaceDogfight/Blueprints''"
      "initial ()"]
    ensure_directory_exists_always_true[of no_asset_host "''/Game/SpaceDogfight/Weapons''"
      "initial ()"]
  show ?thesis by blast
qed


























section \<open>C1: which functions catch what the host raises\<close>





lemma hosts_named_simps [simp]:
  "hosts_named ns [] = []"
  "hosts_named ns (t @ u) = hosts_named ns t @ hosts_named ns u"
  "hosts_named ns (Host n a r # t) = (if n \<in> set ns then Host n a r # hosts_named ns t else hosts_named ns t)"
  "hosts_named ns (Log m # t) = hosts_named ns t"
  "hosts_named ns (Enter f a # t) = hosts_named ns t"
  "hosts_named ns (Leave f x # t) = hosts_named ns t"
  by (simp_all add: hosts_named_def)






section \<open>C3: check, then load or create\<close>










lemma view_simps [simp]:
  "view fns [] = []"
  "view fns (t @ u) = view fns t @ view fns u"
  "view fns (Enter n a # t) = (if n \<in> set fns then Enter n a # view fns t else view fns t)"
  "view fns (Leave n r # t) = (if n \<in> set fns then Leave n r # view fns t else view fns t)"
  "view fns (Host n a rep # t) = view fns t"
  "view fns (Log m # t) = view fns t"
  by (simp_all add: view_def about_def)




lemma inner_simps [simp]:
  "inner (Host n a rep)"
  "inner (Log (T ''[SETUP] '' # T x # rest)) = (x \<notin> set main_texts)"
  by (simp_all add: inner_def about_def main_line_def)






lemma about_simps [simp]:
  "about fns (Enter n a) = (n \<in> set fns)"
  "about fns (Leave n r) = (n \<in> set fns)"
  "about fns (Host n a rep) = False"
  "about fns (Log m) = False"
  by (simp_all add: about_def)

lemma apart_from_simps [simp]:
  "apart_from fns (Enter n a) = (n \<notin> set fns)"
  "apart_from fns (Leave n r) = (n \<notin> set fns)"
  "apart_from fns (Host n a rep)"
  "apart_from fns (Log m)"
  by (simp_all add: apart_from_def)




























lemma add_blueprint_variables_Inl: "result (add_blueprint_variables H bp) s \<noteq> Inl e"
  using bool_add_blueprint_variables[of H bp s] by auto

lemma add_blueprint_variables_Inr:
  "result (add_blueprint_variables H bp) s = Inr x \<Longrightarrow> \<exists>b. x = VBool b"
  using bool_add_blueprint_variables[of H bp s] by auto

lemma spawn_test_instance_Inl: "result (spawn_test_instance H) s \<noteq> Inl e"
  using bool_spawn_test_instance[of H s] by auto

lemma spawn_test_instance_Inr:
  "result (spawn_test_instance H) s = Inr x \<Longrightarrow> \<exists>b. x = VBool b"
  using bool_spawn_test_instance[of H s] by auto

lemma main_not_a_step [simp]: "''internal_spaceship_creator.main'' \<notin> set spaceship_steps"
  by (simp add: spaceship_steps_def)


lemma main_view_simps [simp]:
  "main_view [] = []"
  "main_view (t @ u) = main_view t @ main_view u"
  "main_view (Enter n a # t) =
     (if n = ''internal_complete_setup.import_and_run_module'' then Enter n a # main_view t
      else main_view t)"
  "main_view (Leave n r # t) =
     (if n = ''internal_complete_setup.import_and_run_module'' then Leave n r # main_view t
      else main_view t)"
  "main_view (Log (T ''[SETUP] '' # T x # rest) # t) =
     (if x \<in> set main_texts then Log (T ''[SETUP] '' # T x # rest) # main_view t else main_view t)"
  by (simp_all add: main_view_def main_line_def)




section \<open>C6: the order of the scripts\<close>



section \<open>C2: what a failed step stops\<close>





end
